theory Spec2Isabelle
  imports Main
begin

section \<open>JavaScript containers\<close>

text \<open>
  A JavaScript \<open>Map\<close> keeps its entries in insertion order with one entry per key. It is
  modelled as an association list: \<open>get\<close> is \<^const>\<open>map_of\<close>, \<open>size\<close> is
  \<^const>\<open>length\<close>, \<open>set\<close> replaces the value of a present key where it stands and
  appends a new key at the end, \<open>delete\<close> drops the key.
\<close>

fun map_set :: "'k \<Rightarrow> 'v \<Rightarrow> ('k \<times> 'v) list \<Rightarrow> ('k \<times> 'v) list" where
  "map_set k v [] = [(k, v)]"
| "map_set k v (p # ps) = (if fst p = k then (k, v) # ps else p # map_set k v ps)"

fun map_delete :: "'k \<Rightarrow> ('k \<times> 'v) list \<Rightarrow> ('k \<times> 'v) list" where
  "map_delete k [] = []"
| "map_delete k (p # ps) = (if fst p = k then map_delete k ps else p # map_delete k ps)"

section \<open>Rate limiter (src/rate-limit.ts)\<close>

text \<open>
  \<open>Date.now()\<close> is an argument of every operation that reads the clock. The limit
  \<open>maxMessages\<close> and the clock's milliseconds are whole numbers.
\<close>

record RateLimiter =
  windows :: "(string \<times> int list) list"
  maxMessages :: int
  windowMs :: int

definition RateLimiter_new :: "int \<Rightarrow> RateLimiter" where
  "RateLimiter_new maxMessagesPerSecond =
     \<lparr>windows = [], maxMessages = maxMessagesPerSecond, windowMs = 1000\<rparr>"

text \<open>The loop \<open>while (timestamps.length > 0 && timestamps[0] < cutoff) timestamps.shift()\<close>.\<close>

fun shift_expired :: "int \<Rightarrow> int list \<Rightarrow> int list" where
  "shift_expired cutoff [] = []"
| "shift_expired cutoff (t # ts) = (if t < cutoff then shift_expired cutoff ts else t # ts)"

text \<open>
  \<open>this.windows.get(clientId)\<close>, with the empty array that \<open>allow\<close> stores for a client
  it has not seen.
\<close>

definition stored_window :: "RateLimiter \<Rightarrow> string \<Rightarrow> int list" where
  "stored_window rl clientId = (case map_of (windows rl) clientId of None \<Rightarrow> [] | Some ts \<Rightarrow> ts)"

text \<open>
  \<open>allow\<close>: the array stored in the map is the one that is pruned and pushed to, so the
  pruned array is what the map holds after a rejected call.
\<close>

definition allow :: "int \<Rightarrow> string \<Rightarrow> RateLimiter \<Rightarrow> bool \<times> RateLimiter" where
  "allow now clientId rl =
     (let cutoff = now - windowMs rl;
          timestamps = stored_window rl clientId;
          timestamps = shift_expired cutoff timestamps
      in if maxMessages rl \<le> int (length timestamps)
         then (False, rl\<lparr>windows := map_set clientId timestamps (windows rl)\<rparr>)
         else (True, rl\<lparr>windows := map_set clientId (timestamps @ [now]) (windows rl)\<rparr>))"

definition remove :: "string \<Rightarrow> RateLimiter \<Rightarrow> RateLimiter" where
  "remove clientId rl = rl\<lparr>windows := map_delete clientId (windows rl)\<rparr>"

fun cleanup_entries :: "int \<Rightarrow> (string \<times> int list) list \<Rightarrow> (string \<times> int list) list" where
  "cleanup_entries cutoff [] = []"
| "cleanup_entries cutoff ((clientId, timestamps) # rest) =
     (let timestamps = shift_expired cutoff timestamps
      in if length timestamps = 0 then cleanup_entries cutoff rest
         else (clientId, timestamps) # cleanup_entries cutoff rest)"

definition cleanup :: "int \<Rightarrow> RateLimiter \<Rightarrow> RateLimiter" where
  "cleanup now rl = rl\<lparr>windows := cleanup_entries (now - windowMs rl) (windows rl)\<rparr>"

text \<open>A history of calls on one limiter, each with the clock value it reads.\<close>

datatype limiter_call = Allow int string | Remove string | Cleanup int

fun limiter_step :: "RateLimiter \<Rightarrow> limiter_call \<Rightarrow> RateLimiter" where
  "limiter_step rl (Allow now clientId) = snd (allow now clientId rl)"
| "limiter_step rl (Remove clientId) = remove clientId rl"
| "limiter_step rl (Cleanup now) = cleanup now rl"

definition limiter_run :: "RateLimiter \<Rightarrow> limiter_call list \<Rightarrow> RateLimiter" where
  "limiter_run rl calls = foldl limiter_step rl calls"

definition window_bounded :: "RateLimiter \<Rightarrow> bool" where
  "window_bounded rl = list_all (\<lambda>(clientId, ts). int (length ts) \<le> maxMessages rl) (windows rl)"

section \<open>JavaScript values\<close>

text \<open>
  The values a decoded message can hold. TypeScript types are erased at run time and the
  server validates nothing beyond the checks written in \<open>decodeMessage\<close>, so whatever
  a client sent is carried as a \<open>jsval\<close>. Numbers are integers (floating point values
  are outside the model), \<open>JBytes\<close> is a \<open>Uint8Array\<close>, and an object is the association list of its
  own properties in insertion order.
\<close>

datatype jsval =
    JUndefined
  | JNull
  | JBool bool
  | JNum int
  | JStr string
  | JBytes "nat list"
  | JArr "jsval list"
  | JObj "(string \<times> jsval) list"

datatype jstype = TUndefined | TObject | TBoolean | TNumber | TString

fun typeof :: "jsval \<Rightarrow> jstype" where
  "typeof JUndefined = TUndefined"
| "typeof JNull = TObject"
| "typeof (JBool b) = TBoolean"
| "typeof (JNum n) = TNumber"
| "typeof (JStr s) = TString"
| "typeof (JBytes bs) = TObject"
| "typeof (JArr xs) = TObject"
| "typeof (JObj kvs) = TObject"

text \<open>\<open>!v\<close> is true for the falsy values.\<close>

fun falsy :: "jsval \<Rightarrow> bool" where
  "falsy JUndefined = True"
| "falsy JNull = True"
| "falsy (JBool b) = (\<not> b)"
| "falsy (JNum n) = (n = 0)"
| "falsy (JStr s) = (s = [])"
| "falsy (JBytes bs) = False"
| "falsy (JArr xs) = False"
| "falsy (JObj kvs) = False"

fun isArray :: "jsval \<Rightarrow> bool" where
  "isArray (JArr xs) = True"
| "isArray v = False"

datatype js_error = TypeError | RangeError | DecodeError | Unsupported

text \<open>
  \<open>key in v\<close> throws on a primitive. The keys asked for in this program are no built-in
  property of an array or a typed array, so only an object's own keys answer true.
\<close>

fun js_in :: "string \<Rightarrow> jsval \<Rightarrow> js_error + bool" where
  "js_in key (JObj kvs) = Inr (map_of kvs key \<noteq> None)"
| "js_in key (JArr xs) = Inr False"
| "js_in key (JBytes bs) = Inr False"
| "js_in key v = Inl TypeError"

text \<open>
  \<open>v.key\<close> throws on \<open>undefined\<close> and \<open>null\<close>; a missing property reads as
  \<open>undefined\<close>. The keys read in this program (\<open>type\<close>, \<open>payload\<close>,
  \<open>displayName\<close>, \<open>message\<close>, \<open>protocolVersion\<close>, \<open>nonce\<close>) are no built-in
  property of any other kind of value.
\<close>

fun js_get :: "jsval \<Rightarrow> string \<Rightarrow> js_error + jsval" where
  "js_get JUndefined key = Inl TypeError"
| "js_get JNull key = Inl TypeError"
| "js_get (JObj kvs) key = Inr (case map_of kvs key of None \<Rightarrow> JUndefined | Some v \<Rightarrow> v)"
| "js_get v key = Inr JUndefined"

text \<open>
  \<open>v.slice(0, n)\<close>: strings, arrays and typed arrays have the method; calling it on
  anything else is a TypeError.
\<close>

fun js_slice0 :: "nat \<Rightarrow> jsval \<Rightarrow> js_error + jsval" where
  "js_slice0 n (JStr s) = Inr (JStr (take n s))"
| "js_slice0 n (JArr xs) = Inr (JArr (take n xs))"
| "js_slice0 n (JBytes bs) = Inr (JBytes (take n bs))"
| "js_slice0 n v = Inl TypeError"

text \<open>Decimal digits of a number, as a template literal prints an integer.\<close>

definition digit_char :: "nat \<Rightarrow> char" where
  "digit_char d =
     (if d = 0 then CHR ''0'' else if d = 1 then CHR ''1'' else if d = 2 then CHR ''2''
      else if d = 3 then CHR ''3'' else if d = 4 then CHR ''4'' else if d = 5 then CHR ''5''
      else if d = 6 then CHR ''6'' else if d = 7 then CHR ''7'' else if d = 8 then CHR ''8''
      else CHR ''9'')"

fun string_of_nat :: "nat \<Rightarrow> string" where
  "string_of_nat n =
     (if n < 10 then [digit_char n]
      else string_of_nat (n div 10) @ [digit_char (n mod 10)])"

definition string_of_int :: "int \<Rightarrow> string" where
  "string_of_int i = (if i < 0 then CHR ''-'' # string_of_nat (nat (- i)) else string_of_nat (nat i))"

text \<open>
  The own enumerable properties that an object spread \<open>{...v}\<close> copies: those of an
  object, the indexed elements of an array, a typed array or a string, nothing otherwise.
\<close>

fun indexed :: "nat \<Rightarrow> jsval list \<Rightarrow> (string \<times> jsval) list" where
  "indexed i [] = []"
| "indexed i (x # xs) = (string_of_nat i, x) # indexed (Suc i) xs"

fun own_props :: "jsval \<Rightarrow> (string \<times> jsval) list" where
  "own_props (JObj kvs) = kvs"
| "own_props (JArr xs) = indexed 0 xs"
| "own_props (JBytes bs) = indexed 0 (map (\<lambda>b. JNum (int b)) bs)"
| "own_props (JStr s) = indexed 0 (map (\<lambda>c. JStr [c]) s)"
| "own_props v = []"

section \<open>Connections and effects\<close>

text \<open>
  A WebSocket is named by a number; its \<open>readyState\<close> is read from the environment.
  What a handler does to the outside is the list of its effects, in order. \<open>Send ws m\<close>
  stands for \<open>ws.send(encodeMessage(m))\<close>.
\<close>

type_synonym ws = nat

datatype readyState = CONNECTING | OPEN | CLOSING | CLOSED

datatype 'm effect =
    Send ws 'm
  | Close ws nat string
  | StartKeepAlive ws int
  | StopKeepAlive ws


subsection \<open>The rate gauge in double precision\<close>

text \<open>
  The rooms compute \<open>Math.round((messageCount / elapsed) * 1000)\<close> on IEEE 754 doubles:
  the quotient is rounded to the nearest double, so is the product, and \<open>Math.round\<close>
  takes the nearest whole number, a half going up. A positive double is written here as a
  fraction of two whole numbers. \<open>nearest_double a b\<close> is the double nearest to
  \<open>a / b\<close> (ties to the even significand of 53 bits), for \<open>a\<close> and \<open>b\<close> positive
  and the quotient in the range of normal doubles, which holds for all counts and clock
  differences below \<open>2 ^ 53\<close>.
\<close>

function bit_width :: "int \<Rightarrow> nat" where
  "bit_width n = (if n \<le> 0 then 0 else Suc (bit_width (n div 2)))"
  by pat_completeness auto

termination bit_width
  by (relation "measure nat") simp_all

declare bit_width.simps [simp del]

definition scaled :: "int \<Rightarrow> int \<Rightarrow> int \<Rightarrow> int \<times> int" where
  "scaled a b k = (if 0 \<le> k then (a * 2 ^ nat k, b) else (a, b * 2 ^ nat (- k)))"

definition nearest_double :: "int \<Rightarrow> int \<Rightarrow> int \<times> int" where
  "nearest_double a b =
     (let k0 = 52 + int (bit_width b) - int (bit_width a);
          k = (if 2 ^ 52 \<le> fst (scaled a b k0) div snd (scaled a b k0) then k0 else k0 + 1);
          (n, d) = scaled a b k;
          q = n div d;
          r = n mod d;
          significand = (if d < 2 * r \<or> (2 * r = d \<and> odd q) then q + 1 else q)
      in if 0 \<le> k then (significand, 2 ^ nat k) else (significand * 2 ^ nat (- k), 1))"

text \<open>
  \<open>Math.round((count / elapsed) * 1000)\<close> for whole numbers \<open>count\<close> and
  \<open>elapsed\<close> with \<open>elapsed\<close> positive, which is where the rooms compute it (they
  do so only when \<open>elapsed >= 1000\<close>).
\<close>

definition rate_per_second :: "int \<Rightarrow> int \<Rightarrow> int" where
  "rate_per_second count elapsed =
     (if count = 0 then 0
      else
        let (n1, d1) = nearest_double \<bar>count\<bar> elapsed;
            (n2, d2) = nearest_double (n1 * 1000) d1
        in (2 * sgn count * n2 + d2) div (2 * d2))"
section \<open>Wire codec\<close>

text \<open>
  \<open>encode\<close> and \<open>decode\<close> come from the package \<open>@msgpack/msgpack\<close>, which is no part
  of this repository: they are parameters \<open>enc\<close> and \<open>dec\<close> of the functions below.
  Either may throw, which is the left injection.
\<close>

type_synonym bytes = "nat list"
type_synonym lib_encode = "jsval \<Rightarrow> js_error + bytes"
type_synonym lib_decode = "bytes \<Rightarrow> js_error + jsval"

text \<open>\<open>try { ... } catch { return null }\<close> around a body that may throw.\<close>

definition catch_null :: "js_error + 'a option \<Rightarrow> 'a option" where
  "catch_null body = (case body of Inl e \<Rightarrow> None | Inr r \<Rightarrow> r)"

subsection \<open>Authoritative protocol (src/unnamed/part_001)\<close>

datatype ServerMessage =
    Snapshot "(string \<times> jsval) list" int
  | PlayerJoined string jsval
  | PlayerLeft string
  | Chat string jsval
  | Error string string

text \<open>The object literal that each envelope is in the source.\<close>

fun js_of_ServerMessage :: "ServerMessage \<Rightarrow> jsval" where
  "js_of_ServerMessage (Snapshot players timestamp) =
     JObj [(''type'', JStr ''snapshot''),
           (''payload'', JObj [(''players'', JObj players), (''timestamp'', JNum timestamp)])]"
| "js_of_ServerMessage (PlayerJoined i displayName) =
     JObj [(''type'', JStr ''player_joined''),
           (''payload'', JObj [(''id'', JStr i), (''displayName'', displayName)])]"
| "js_of_ServerMessage (PlayerLeft i) =
     JObj [(''type'', JStr ''player_left''), (''payload'', JObj [(''id'', JStr i)])]"
| "js_of_ServerMessage (Chat i message) =
     JObj [(''type'', JStr ''chat''),
           (''payload'', JObj [(''id'', JStr i), (''message'', message)])]"
| "js_of_ServerMessage (Error code message) =
     JObj [(''type'', JStr ''error''),
           (''payload'', JObj [(''code'', JStr code), (''message'', JStr message)])]"

definition encodeMessage_auth :: "lib_encode \<Rightarrow> ServerMessage \<Rightarrow> js_error + bytes" where
  "encodeMessage_auth enc msg = enc (js_of_ServerMessage msg)"

definition decodeMessage_auth_body :: "lib_decode \<Rightarrow> bytes \<Rightarrow> js_error + jsval option" where
  "decodeMessage_auth_body dec data =
     (case dec data of
        Inl e \<Rightarrow> Inl e
      | Inr msg \<Rightarrow>
          if falsy msg \<or> typeof msg \<noteq> TObject then Inr None
          else (case js_in ''type'' msg of
                  Inl e \<Rightarrow> Inl e
                | Inr present \<Rightarrow> if \<not> present then Inr None else Inr (Some msg)))"

definition decodeMessage_auth :: "lib_decode \<Rightarrow> bytes \<Rightarrow> jsval option" where
  "decodeMessage_auth dec data = catch_null (decodeMessage_auth_body dec data)"

definition RATE_LIMITED :: string where "RATE_LIMITED = ''RATE_LIMITED''"
definition ROOM_FULL :: string where "ROOM_FULL = ''ROOM_FULL''"
definition INVALID_MESSAGE :: string where "INVALID_MESSAGE = ''INVALID_MESSAGE''"
definition NOT_JOINED :: string where "NOT_JOINED = ''NOT_JOINED''"

subsection \<open>Relay protocol (src/protocol.ts)\<close>

definition PROTOCOL_VERSION :: int where "PROTOCOL_VERSION = 1"

datatype RelayServerMessage =
    Welcome int string "string list"
  | PeerJoined string
  | PeerLeft string
  | Relay string jsval
  | Pong string int
  | ErrorMessage string string

fun js_of_RelayServerMessage :: "RelayServerMessage \<Rightarrow> jsval" where
  "js_of_RelayServerMessage (Welcome protocolVersion playerId peers) =
     JObj [(''type'', JStr ''welcome''), (''protocolVersion'', JNum protocolVersion),
           (''playerId'', JStr playerId), (''peers'', JArr (map JStr peers))]"
| "js_of_RelayServerMessage (PeerJoined peerId) =
     JObj [(''type'', JStr ''peer_joined''), (''peerId'', JStr peerId)]"
| "js_of_RelayServerMessage (PeerLeft peerId) =
     JObj [(''type'', JStr ''peer_left''), (''peerId'', JStr peerId)]"
| "js_of_RelayServerMessage (Relay from data) =
     JObj [(''type'', JStr ''relay''), (''from'', JStr from), (''data'', data)]"
| "js_of_RelayServerMessage (Pong nonce serverTime) =
     JObj [(''type'', JStr ''pong''), (''nonce'', JStr nonce), (''serverTime'', JNum serverTime)]"
| "js_of_RelayServerMessage (ErrorMessage code message) =
     JObj [(''type'', JStr ''error''), (''code'', JStr code), (''message'', JStr message)]"

definition encodeMessage_relay :: "lib_encode \<Rightarrow> RelayServerMessage \<Rightarrow> js_error + bytes" where
  "encodeMessage_relay enc msg = enc (js_of_RelayServerMessage msg)"

definition decodeMessage_relay_body :: "lib_decode \<Rightarrow> bytes \<Rightarrow> js_error + jsval option" where
  "decodeMessage_relay_body dec data =
     (case dec data of
        Inl e \<Rightarrow> Inl e
      | Inr msg \<Rightarrow>
          if falsy msg \<or> typeof msg \<noteq> TObject \<or> isArray msg then Inr None
          else Inr (Some msg))"

definition decodeMessage_relay :: "lib_decode \<Rightarrow> bytes \<Rightarrow> jsval option" where
  "decodeMessage_relay dec data = catch_null (decodeMessage_relay_body dec data)"

definition BAD_PROTOCOL :: string where "BAD_PROTOCOL = ''BAD_PROTOCOL''"

subsection \<open>A reference decoder for concrete messages\<close>

text \<open>
  For the examples on concrete bytes: the MessagePack formats for nil, booleans, integers,
  strings, byte arrays, arrays and maps, read with a stack of open containers as the
  package's decoder does. A map key must be a string or a number, which becomes the
  property's name, and the key \<open>__proto__\<close> is refused; the byte \<open>0xc1\<close> is never
  used; a value left over after the first one, or a missing byte, is a RangeError.
  Floating point formats, extension types, integers that are no safe integers and strings
  outside ASCII are answered with \<open>Unmodelled\<close>: nothing is claimed about them, and no
  example uses them.
\<close>

datatype frame =
    ArrayFrame nat "jsval list"
  | MapKeyFrame nat "(string \<times> jsval) list"
  | MapValueFrame nat "(string \<times> jsval) list" string

text \<open>
  What a first byte starts: \<open>Value v n\<close> is a finished value that took \<open>n\<close> further
  bytes, \<open>Container f n\<close> an opened array or map whose header took \<open>n\<close> further bytes.
\<close>

datatype header = Value jsval nat | Container frame nat | Bad js_error | Unmodelled

text \<open>The number that bytes spell, most significant byte first.\<close>

definition be_value :: "bytes \<Rightarrow> nat" where
  "be_value bs = foldl (\<lambda>acc b. 256 * acc + b) 0 bs"

definition sized :: "nat \<Rightarrow> bytes \<Rightarrow> (nat \<Rightarrow> header) \<Rightarrow> header" where
  "sized k rest f = (if length rest < k then Bad RangeError else f (be_value (take k rest)))"

definition twos_complement :: "nat \<Rightarrow> nat \<Rightarrow> int" where
  "twos_complement k v = (if 2 ^ (8 * k - 1) \<le> v then int v - 2 ^ (8 * k) else int v)"

definition safe_integer :: "int \<Rightarrow> bool" where
  "safe_integer n = (- (2 ^ 53) < n \<and> n < 2 ^ 53)"

definition read_int :: "int \<Rightarrow> nat \<Rightarrow> header" where
  "read_int n k = (if safe_integer n then Value (JNum n) k else Unmodelled)"

definition read_str :: "nat \<Rightarrow> nat \<Rightarrow> bytes \<Rightarrow> header" where
  "read_str k n rest =
     (let data = drop k rest
      in if length data < n then Bad RangeError
         else if list_all (\<lambda>c. c < 128) (take n data)
              then Value (JStr (map char_of (take n data))) (k + n)
              else Unmodelled)"

definition read_bin :: "nat \<Rightarrow> nat \<Rightarrow> bytes \<Rightarrow> header" where
  "read_bin k n rest =
     (let data = drop k rest
      in if length data < n then Bad RangeError else Value (JBytes (take n data)) (k + n))"

definition open_array :: "nat \<Rightarrow> nat \<Rightarrow> header" where
  "open_array k n = (if n = 0 then Value (JArr []) k else Container (ArrayFrame n []) k)"

definition open_map :: "nat \<Rightarrow> nat \<Rightarrow> header" where
  "open_map k n = (if n = 0 then Value (JObj []) k else Container (MapKeyFrame n []) k)"

definition read_header :: "nat \<Rightarrow> bytes \<Rightarrow> header" where
  "read_header b rest =
     (if b < 128 then Value (JNum (int b)) 0
      else if b < 144 then open_map 0 (b - 128)
      else if b < 160 then open_array 0 (b - 144)
      else if b < 192 then read_str 0 (b - 160) rest
      else if b = 192 then Value JNull 0
      else if b = 193 then Bad DecodeError
      else if b = 194 then Value (JBool False) 0
      else if b = 195 then Value (JBool True) 0
      else if b = 196 then sized 1 rest (\<lambda>n. read_bin 1 n rest)
      else if b = 197 then sized 2 rest (\<lambda>n. read_bin 2 n rest)
      else if b = 198 then sized 4 rest (\<lambda>n. read_bin 4 n rest)
      else if b = 204 then sized 1 rest (\<lambda>n. read_int (int n) 1)
      else if b = 205 then sized 2 rest (\<lambda>n. read_int (int n) 2)
      else if b = 206 then sized 4 rest (\<lambda>n. read_int (int n) 4)
      else if b = 207 then sized 8 rest (\<lambda>n. read_int (int n) 8)
      else if b = 208 then sized 1 rest (\<lambda>n. read_int (twos_complement 1 n) 1)
      else if b = 209 then sized 2 rest (\<lambda>n. read_int (twos_complement 2 n) 2)
      else if b = 210 then sized 4 rest (\<lambda>n. read_int (twos_complement 4 n) 4)
      else if b = 211 then sized 8 rest (\<lambda>n. read_int (twos_complement 8 n) 8)
      else if b = 217 then sized 1 rest (\<lambda>n. read_str 1 n rest)
      else if b = 218 then sized 2 rest (\<lambda>n. read_str 2 n rest)
      else if b = 219 then sized 4 rest (\<lambda>n. read_str 4 n rest)
      else if b = 220 then sized 2 rest (open_array 2)
      else if b = 221 then sized 4 rest (open_array 4)
      else if b = 222 then sized 2 rest (open_map 2)
      else if b = 223 then sized 4 rest (open_map 4)
      else if 224 \<le> b \<and> b < 256 then Value (JNum (int b - 256)) 0
      else Unmodelled)"

text \<open>
  A finished value goes into the innermost open container, which may finish in turn; with
  no container open it is the result.
\<close>

fun complete :: "jsval \<Rightarrow> frame list \<Rightarrow> js_error + (jsval + frame list)" where
  "complete v [] = Inr (Inl v)"
| "complete v (ArrayFrame n acc # stack) =
     (if n \<le> 1 then complete (JArr (acc @ [v])) stack
      else Inr (Inr (ArrayFrame (n - 1) (acc @ [v]) # stack)))"
| "complete v (MapKeyFrame n acc # stack) =
     (case v of
        JStr key \<Rightarrow>
          if key = ''__proto__'' then Inl DecodeError
          else Inr (Inr (MapValueFrame n acc key # stack))
      | JNum k \<Rightarrow> Inr (Inr (MapValueFrame n acc (string_of_int k) # stack))
      | _ \<Rightarrow> Inl DecodeError)"
| "complete v (MapValueFrame n acc key # stack) =
     (if n \<le> 1 then complete (JObj (map_set key v acc)) stack
      else Inr (Inr (MapKeyFrame (n - 1) (map_set key v acc) # stack)))"

datatype decode_result = Decoded jsval | Thrown js_error | OutsideModel

fun decode_loop :: "frame list \<Rightarrow> bytes \<Rightarrow> decode_result" where
  "decode_loop stack [] = Thrown RangeError"
| "decode_loop stack (b # rest) =
     (case read_header b rest of
        Bad e \<Rightarrow> Thrown e
      | Unmodelled \<Rightarrow> OutsideModel
      | Container frame n \<Rightarrow> decode_loop (frame # stack) (drop n rest)
      | Value v n \<Rightarrow>
          (case complete v stack of
             Inl e \<Rightarrow> Thrown e
           | Inr (Inl whole) \<Rightarrow> if drop n rest = [] then Decoded whole else Thrown RangeError
           | Inr (Inr stack') \<Rightarrow> decode_loop stack' (drop n rest)))"

text \<open>
  As a \<open>lib_decode\<close>. Bytes outside the selection are given the error \<open>Unsupported\<close>
  only so that the function is total; the examples stay inside the selection.
\<close>

definition msgpack_decode :: lib_decode where
  "msgpack_decode data =
     (case decode_loop [] data of
        Decoded v \<Rightarrow> Inr v
      | Thrown e \<Rightarrow> Inl e
      | OutsideModel \<Rightarrow> Inl Unsupported)"

subsection \<open>What the decoded value is\<close>

text \<open>
  The kinds of value that the two checks let through: a keyed object that has an own key
  \<open>type\<close>, and any value that is an object but no array.
\<close>

fun has_type_key :: "jsval \<Rightarrow> bool" where
  "has_type_key (JObj kvs) = (map_of kvs ''type'' \<noteq> None)"
| "has_type_key v = False"

fun object_not_array :: "jsval \<Rightarrow> bool" where
  "object_not_array (JObj kvs) = True"
| "object_not_array (JBytes bs) = True"
| "object_not_array v = False"

text \<open>
  The specification's wording of a well-formed message: a keyed structure whose
  discriminant \<open>type\<close> is present and is a string.
\<close>

fun spec_well_formed :: "jsval \<Rightarrow> bool" where
  "spec_well_formed (JObj kvs) = (case map_of kvs ''type'' of Some (JStr tag) \<Rightarrow> True | _ \<Rightarrow> False)"
| "spec_well_formed v = False"

section \<open>Room, authoritative mode (src/unnamed/part_000)\<close>

text \<open>
  \<open>displayName\<close> and \<open>state\<close> are declared \<open>string\<close> and \<open>PlayerState\<close>; the
  room stores and forwards what the router hands it and never inspects it. The capacity
  \<open>maxPlayers\<close> is a whole number, as a count of players is.
\<close>

record Player =
  player_id :: string
  player_ws :: ws
  displayName :: jsval
  state :: jsval
  joinedAt :: int

text \<open>
  The handle of the tick timer: \<open>setInterval\<close> was called with the period
  \<open>1000 / snapshotHz\<close> ms, of which the divisor is kept.
\<close>

datatype interval_handle = TickEvery int

record Room =
  room_id :: string
  players :: "(string \<times> Player) list"
  tickInterval :: "interval_handle option"
  maxPlayers :: int
  snapshotHz :: int
  messageCount :: int
  lastMessageCountReset :: int
  messagesPerSecond :: int

definition Room_new :: "int \<Rightarrow> string \<Rightarrow> int \<Rightarrow> int \<Rightarrow> Room" where
  "Room_new now i maxPlayers' snapshotHz' =
     \<lparr>room_id = i, players = [], tickInterval = None, maxPlayers = maxPlayers',
      snapshotHz = snapshotHz', messageCount = 0, lastMessageCountReset = now,
      messagesPerSecond = 0\<rparr>"

definition playerCount :: "Room \<Rightarrow> nat" where
  "playerCount room = length (players room)"

definition isFull :: "Room \<Rightarrow> bool" where
  "isFull room = (maxPlayers room \<le> int (length (players room)))"

definition isRunning :: "Room \<Rightarrow> bool" where
  "isRunning room = (tickInterval room \<noteq> None)"

text \<open>
  \<open>broadcast\<close> sends to every player but the excluded one whose socket is open, in the
  map's order.
\<close>

fun broadcast_to :: "(ws \<Rightarrow> readyState) \<Rightarrow> (string \<times> Player) list \<Rightarrow> 'm \<Rightarrow> string option
    \<Rightarrow> 'm effect list" where
  "broadcast_to rs [] msg excludeId = []"
| "broadcast_to rs ((i, player) # rest) msg excludeId =
     (if Some i = excludeId then broadcast_to rs rest msg excludeId
      else if rs (player_ws player) = OPEN
           then Send (player_ws player) msg # broadcast_to rs rest msg excludeId
           else broadcast_to rs rest msg excludeId)"

definition broadcast :: "(ws \<Rightarrow> readyState) \<Rightarrow> Room \<Rightarrow> ServerMessage \<Rightarrow> string option
    \<Rightarrow> ServerMessage effect list" where
  "broadcast rs room msg excludeId = broadcast_to rs (players room) msg excludeId"

definition startTickLoop :: "Room \<Rightarrow> Room" where
  "startTickLoop room = room\<lparr>tickInterval := Some (TickEvery (snapshotHz room))\<rparr>"

definition stopTickLoop :: "Room \<Rightarrow> Room" where
  "stopTickLoop room = (if tickInterval room \<noteq> None then room\<lparr>tickInterval := None\<rparr> else room)"

definition neutral_state :: jsval where
  "neutral_state =
     JObj [(''position'', JObj [(''x'', JNum 0), (''y'', JNum 0), (''z'', JNum 0)]),
           (''rotation'', JObj [(''x'', JNum 0), (''y'', JNum 0), (''z'', JNum 0), (''w'', JNum 1)]),
           (''action'', JStr ''idle'')]"

definition room_full_message :: "Room \<Rightarrow> string" where
  "room_full_message room =
     ''Room \"'' @ room_id room @ ''\" is full ('' @ string_of_int (maxPlayers room) @ '' players)''"

definition join :: "(ws \<Rightarrow> readyState) \<Rightarrow> int \<Rightarrow> string \<Rightarrow> ws \<Rightarrow> jsval \<Rightarrow> Room
    \<Rightarrow> bool \<times> Room \<times> ServerMessage effect list" where
  "join rs now i w displayName' room =
     (if isFull room
      then (False, room, [Send w (Error ROOM_FULL (room_full_message room))])
      else
        let player = \<lparr>player_id = i, player_ws = w, displayName = displayName',
                       state = neutral_state, joinedAt = now\<rparr>;
            room = room\<lparr>players := map_set i player (players room)\<rparr>;
            sent = broadcast rs room (PlayerJoined i displayName') (Some i);
            room = (if length (players room) = 1 \<and> tickInterval room = None
                    then startTickLoop room else room)
        in (True, room, sent))"

definition leave :: "(ws \<Rightarrow> readyState) \<Rightarrow> string \<Rightarrow> Room \<Rightarrow> Room \<times> ServerMessage effect list" where
  "leave rs i room =
     (case map_of (players room) i of
        None \<Rightarrow> (room, [])
      | Some player \<Rightarrow>
          let room = room\<lparr>players := map_delete i (players room)\<rparr>;
              sent = broadcast rs room (PlayerLeft i) None;
              room = (if length (players room) = 0 then stopTickLoop room else room)
          in (room, sent))"

text \<open>\<open>player.state = { ...state, timestamp: Date.now() }\<close> on the player object in the map.\<close>

definition updatePlayerState :: "int \<Rightarrow> string \<Rightarrow> jsval \<Rightarrow> Room \<Rightarrow> Room" where
  "updatePlayerState now i state' room =
     (case map_of (players room) i of
        None \<Rightarrow> room
      | Some player \<Rightarrow>
          room\<lparr>players :=
                 map_set i
                   (player\<lparr>state := JObj (map_set ''timestamp'' (JNum now) (own_props state'))\<rparr>)
                   (players room),
               messageCount := messageCount room + 1\<rparr>)"

definition chat :: "(ws \<Rightarrow> readyState) \<Rightarrow> string \<Rightarrow> jsval \<Rightarrow> Room
    \<Rightarrow> js_error + Room \<times> ServerMessage effect list" where
  "chat rs i message room =
     (case map_of (players room) i of
        None \<Rightarrow> Inr (room, [])
      | Some player \<Rightarrow>
          (case js_slice0 500 message of
             Inl e \<Rightarrow> Inl e
           | Inr text \<Rightarrow>
               Inr (room\<lparr>messageCount := messageCount room + 1\<rparr>,
                    broadcast rs room (Chat i text) None)))"

definition hasPlayer :: "Room \<Rightarrow> string \<Rightarrow> bool" where
  "hasPlayer room i = (map_of (players room) i \<noteq> None)"

text \<open>
  The record that \<open>tick\<close> fills, \<open>players[id] = { ...player.state, displayName }\<close>, in
  the map's order.
\<close>

fun snapshot_players :: "(string \<times> Player) list \<Rightarrow> (string \<times> jsval) list \<Rightarrow> (string \<times> jsval) list" where
  "snapshot_players [] acc = acc"
| "snapshot_players ((i, player) # rest) acc =
     snapshot_players rest
       (map_set i (JObj (map_set ''displayName'' (displayName player) (own_props (state player)))) acc)"

text \<open>
  \<open>tick\<close> reads the clock twice: \<open>now\<close> stamps the snapshot, \<open>now'\<close> is the reading
  for the metric, which is computed on doubles (\<open>rate_per_second\<close>).
\<close>

definition tick :: "(ws \<Rightarrow> readyState) \<Rightarrow> int \<Rightarrow> int \<Rightarrow> Room \<Rightarrow> Room \<times> ServerMessage effect list" where
  "tick rs now now' room =
     (if length (players room) = 0 then (room, [])
      else
        let snapshot = Snapshot (snapshot_players (players room) []) now;
            sent = broadcast rs room snapshot None;
            elapsed = now' - lastMessageCountReset room
        in if 1000 \<le> elapsed
           then (room\<lparr>messagesPerSecond := rate_per_second (messageCount room) elapsed,
                      messageCount := 0, lastMessageCountReset := now'\<rparr>, sent)
           else (room, sent))"

definition destroy :: "Room \<Rightarrow> Room \<times> ServerMessage effect list" where
  "destroy room =
     (let room = stopTickLoop room
      in (room\<lparr>players := []\<rparr>,
          map (\<lambda>(i, player). Close (player_ws player) 1001 ''Room destroyed'') (players room)))"

text \<open>
  A history of calls on one room. Each call carries what it reads from the environment:
  the sockets' ready states and the clock. A \<open>chat\<close> that throws leaves the room as it
  was.
\<close>

datatype room_call =
    Join "ws \<Rightarrow> readyState" int string ws jsval
  | Leave "ws \<Rightarrow> readyState" string
  | UpdatePlayerState int string jsval
  | ChatFrom "ws \<Rightarrow> readyState" string jsval
  | Tick "ws \<Rightarrow> readyState" int int
  | Destroy

fun room_step :: "Room \<Rightarrow> room_call \<Rightarrow> Room" where
  "room_step room (Join rs now i w displayName') = fst (snd (join rs now i w displayName' room))"
| "room_step room (Leave rs i) = fst (leave rs i room)"
| "room_step room (UpdatePlayerState now i state') = updatePlayerState now i state' room"
| "room_step room (ChatFrom rs i message) =
     (case chat rs i message room of Inl e \<Rightarrow> room | Inr (room', sent) \<Rightarrow> room')"
| "room_step room (Tick rs now now') = fst (tick rs now now' room)"
| "room_step room Destroy = fst (destroy room)"

definition room_run :: "Room \<Rightarrow> room_call list \<Rightarrow> Room" where
  "room_run room calls = foldl room_step room calls"

text \<open>What holds of a room at all times: one entry per id, and no more members than allowed.\<close>

definition room_ok :: "Room \<Rightarrow> bool" where
  "room_ok room =
     (distinct (map fst (players room)) \<and> int (length (players room)) \<le> maxPlayers room)"

section \<open>Session router, authoritative mode (src/index.ts)\<close>

text \<open>
  The router of src/index.ts drives the room with the tick loop: it creates rooms with
  \<open>new Room(roomId, MAX_PLAYERS_PER_ROOM, SNAPSHOT_HZ)\<close> and calls
  \<open>updatePlayerState\<close> and \<open>chat\<close>. A handler reads the clock once.
\<close>

record Config =
  SNAPSHOT_HZ :: int
  KEEPALIVE_MS :: int
  MAX_MESSAGES_PER_SECOND :: int
  MAX_PLAYERS_PER_ROOM :: int

record 'room Server =
  rooms :: "(string \<times> 'room) list"
  rateLimiter :: RateLimiter

record ClientMeta =
  clientId :: string
  roomId :: string

record JoinMeta = ClientMeta +
  joined :: bool

text \<open>Running the rest of a handler after a step that may throw.\<close>

definition and_then :: "js_error + 'a \<Rightarrow> ('a \<Rightarrow> js_error + 'b) \<Rightarrow> js_error + 'b" where
  "and_then step rest = (case step of Inl e \<Rightarrow> Inl e | Inr x \<Rightarrow> rest x)"

definition getOrCreateRoom_auth :: "Config \<Rightarrow> int \<Rightarrow> string \<Rightarrow> Room Server \<Rightarrow> Room \<times> Room Server" where
  "getOrCreateRoom_auth cfg now rid srv =
     (case map_of (rooms srv) rid of
        Some room \<Rightarrow> (room, srv)
      | None \<Rightarrow>
          let room = Room_new now rid (MAX_PLAYERS_PER_ROOM cfg) (SNAPSHOT_HZ cfg)
          in (room, srv\<lparr>rooms := map_set rid room (rooms srv)\<rparr>))"

text \<open>
  The \<open>connection\<close> handler: with no metadata for the socket it closes it; otherwise it
  starts the keepalive timer and installs the handlers below (the boolean). It calls no
  method of any room.
\<close>

definition on_connection_auth :: "Config \<Rightarrow> ws \<Rightarrow> JoinMeta option \<Rightarrow> Room Server
    \<Rightarrow> bool \<times> Room Server \<times> ServerMessage effect list" where
  "on_connection_auth cfg w meta srv =
     (case meta of
        None \<Rightarrow> (False, srv, [Close w 1011 ''Internal error''])
      | Some m \<Rightarrow> (True, srv, [StartKeepAlive w (KEEPALIVE_MS cfg)]))"

text \<open>
  The \<open>message\<close> handler. The room is a mutable object held by the registry, so what a
  room method changes is written back under the room's id. A throw leaves the handler
  (\<open>Inl\<close>).
\<close>

definition put_room :: "string \<Rightarrow> 'room \<Rightarrow> 'room Server \<Rightarrow> 'room Server" where
  "put_room rid room srv = srv\<lparr>rooms := map_set rid room (rooms srv)\<rparr>"

definition on_message_auth :: "lib_decode \<Rightarrow> Config \<Rightarrow> (ws \<Rightarrow> readyState) \<Rightarrow> int \<Rightarrow> ws \<Rightarrow> JoinMeta
    \<Rightarrow> bytes \<Rightarrow> Room Server \<Rightarrow> js_error + JoinMeta \<times> Room Server \<times> ServerMessage effect list" where
  "on_message_auth dec cfg rs now w meta data srv =
     (let (allowed, limiter) = allow now (clientId meta) (rateLimiter srv);
          srv = srv\<lparr>rateLimiter := limiter\<rparr>
      in if \<not> allowed then Inr (meta, srv, [Send w (Error RATE_LIMITED ''Rate limited'')])
         else
           (case decodeMessage_auth dec data of
              None \<Rightarrow> Inr (meta, srv, [Send w (Error INVALID_MESSAGE ''Invalid message format'')])
            | Some message \<Rightarrow>
                let (room, srv) = getOrCreateRoom_auth cfg now (roomId meta) srv
                in and_then (js_get message ''type'') (\<lambda>type.
                   if type = JStr ''join'' then
                     (if joined meta then Inr (meta, srv, [])
                      else
                        and_then (js_get message ''payload'') (\<lambda>payload.
                        and_then (js_get payload ''displayName'') (\<lambda>name.
                        and_then (js_slice0 32 (if falsy name then JStr ''Anonymous'' else name))
                          (\<lambda>displayName'.
                             let (success, room, sent) =
                                   join rs now (clientId meta) w displayName' room
                             in Inr (if success then meta\<lparr>joined := True\<rparr> else meta,
                                     put_room (roomId meta) room srv, sent)))))
                   else if type = JStr ''state'' then
                     (if \<not> joined meta
                      then Inr (meta, srv,
                                [Send w (Error NOT_JOINED ''Send a \"join\" message first'')])
                      else
                        and_then (js_get message ''payload'') (\<lambda>payload.
                          Inr (meta,
                               put_room (roomId meta)
                                 (updatePlayerState now (clientId meta) payload room) srv,
                               [])))
                   else if type = JStr ''chat'' then
                     (if \<not> joined meta then Inr (meta, srv, [])
                      else
                        and_then (js_get message ''payload'') (\<lambda>payload.
                        and_then (js_get payload ''message'') (\<lambda>text.
                        and_then (chat rs (clientId meta) text room) (\<lambda>(room, sent).
                          Inr (meta, put_room (roomId meta) room srv, sent)))))
                   else Inr (meta, srv, []))))"

text \<open>The \<open>close\<close> handler.\<close>

definition on_close_auth :: "(ws \<Rightarrow> readyState) \<Rightarrow> ws \<Rightarrow> JoinMeta \<Rightarrow> Room Server
    \<Rightarrow> Room Server \<times> ServerMessage effect list" where
  "on_close_auth rs w meta srv =
     (let srv = srv\<lparr>rateLimiter := remove (clientId meta) (rateLimiter srv)\<rparr>
      in case map_of (rooms srv) (roomId meta) of
           None \<Rightarrow> (srv, [StopKeepAlive w])
         | Some room \<Rightarrow>
             let (room, sent) = leave rs (clientId meta) room
             in if playerCount room = 0 \<and> roomId meta \<noteq> ''lobby''
                then let (room, closed) = destroy room
                     in (srv\<lparr>rooms := map_delete (roomId meta) (rooms srv)\<rparr>,
                         StopKeepAlive w # sent @ closed)
                else (put_room (roomId meta) room srv, StopKeepAlive w # sent))"

section \<open>Room, relay mode (src/Dockerfile, the \<open>Room\<close> class after the container recipe)\<close>

text \<open>
  The relay room keeps a map of peers and forwards what they send; it has no tick loop.
  \<open>join\<close> reads the clock once, for \<open>joinedAt\<close>. The capacity \<open>maxPlayers\<close> is a
  whole number, as a count of players is.
\<close>

record Peer =
  peer_id :: string
  peer_ws :: ws
  peer_joinedAt :: int

record RelayRoom =
  relay_id :: string
  peers :: "(string \<times> Peer) list"
  relay_maxPlayers :: int
  relay_messageCount :: int
  relay_lastMessageCountReset :: int
  relay_messagesPerSecond :: int

definition RelayRoom_new :: "int \<Rightarrow> string \<Rightarrow> int \<Rightarrow> RelayRoom" where
  "RelayRoom_new now i maxPlayers' =
     \<lparr>relay_id = i, peers = [], relay_maxPlayers = maxPlayers', relay_messageCount = 0,
      relay_lastMessageCountReset = now, relay_messagesPerSecond = 0\<rparr>"

definition relay_playerCount :: "RelayRoom \<Rightarrow> nat" where
  "relay_playerCount room = length (peers room)"

definition relay_isFull :: "RelayRoom \<Rightarrow> bool" where
  "relay_isFull room = (relay_maxPlayers room \<le> int (length (peers room)))"

text \<open>\<open>send\<close> writes to a socket only when it is open.\<close>

definition relay_send :: "(ws \<Rightarrow> readyState) \<Rightarrow> ws \<Rightarrow> 'm \<Rightarrow> 'm effect list" where
  "relay_send rs w msg = (if rs w = OPEN then [Send w msg] else [])"

text \<open>
  \<open>broadcast\<close> sends to every peer but the excluded one whose socket is open, in the
  map's order.
\<close>

fun relay_broadcast :: "(ws \<Rightarrow> readyState) \<Rightarrow> (string \<times> Peer) list \<Rightarrow> 'm \<Rightarrow> string option
    \<Rightarrow> 'm effect list" where
  "relay_broadcast rs [] msg excludeId = []"
| "relay_broadcast rs ((i, peer) # rest) msg excludeId =
     (if Some i = excludeId then relay_broadcast rs rest msg excludeId
      else if rs (peer_ws peer) = OPEN
           then Send (peer_ws peer) msg # relay_broadcast rs rest msg excludeId
           else relay_broadcast rs rest msg excludeId)"

text \<open>The text of the error that a full room sends.\<close>

definition relay_full_message :: "RelayRoom \<Rightarrow> string" where
  "relay_full_message room =
     ''Room \"'' @ relay_id room @ ''\" is full ('' @ string_of_int (relay_maxPlayers room) @ '' peers)''"

text \<open>
  \<open>join\<close>: a full room writes the error to the socket, whatever its state, and answers
  \<open>false\<close>. Otherwise the ids of the peers so far are collected, the new peer is put into
  the map, \<open>welcome\<close> goes to the new peer and \<open>peer_joined\<close> to the others.
\<close>

definition relay_join :: "(ws \<Rightarrow> readyState) \<Rightarrow> int \<Rightarrow> string \<Rightarrow> ws \<Rightarrow> RelayRoom
    \<Rightarrow> bool \<times> RelayRoom \<times> RelayServerMessage effect list" where
  "relay_join rs now i w room =
     (if relay_isFull room
      then (False, room, [Send w (ErrorMessage ROOM_FULL (relay_full_message room))])
      else
        let existingPeerIds = map (\<lambda>(k, peer). peer_id peer) (peers room);
            room = room\<lparr>peers :=
                     map_set i \<lparr>peer_id = i, peer_ws = w, peer_joinedAt = now\<rparr> (peers room)\<rparr>
        in (True, room,
            relay_send rs w (Welcome PROTOCOL_VERSION i existingPeerIds)
            @ relay_broadcast rs (peers room) (PeerJoined i) (Some i)))"

definition relay_leave :: "(ws \<Rightarrow> readyState) \<Rightarrow> string \<Rightarrow> RelayRoom
    \<Rightarrow> RelayRoom \<times> RelayServerMessage effect list" where
  "relay_leave rs i room =
     (case map_of (peers room) i of
        None \<Rightarrow> (room, [])
      | Some peer \<Rightarrow>
          let room = room\<lparr>peers := map_delete i (peers room)\<rparr>
          in (room, relay_broadcast rs (peers room) (PeerLeft i) None))"

definition relay :: "(ws \<Rightarrow> readyState) \<Rightarrow> string \<Rightarrow> jsval \<Rightarrow> RelayRoom
    \<Rightarrow> RelayRoom \<times> RelayServerMessage effect list" where
  "relay rs fromId payload room =
     (case map_of (peers room) fromId of
        None \<Rightarrow> (room, [])
      | Some peer \<Rightarrow>
          (room\<lparr>relay_messageCount := relay_messageCount room + 1\<rparr>,
           relay_broadcast rs (peers room) (Relay fromId payload) (Some fromId)))"

definition hasPeer :: "RelayRoom \<Rightarrow> string \<Rightarrow> bool" where
  "hasPeer room i = (map_of (peers room) i \<noteq> None)"

definition updateMetrics :: "int \<Rightarrow> RelayRoom \<Rightarrow> RelayRoom" where
  "updateMetrics now room =
     (let elapsed = now - relay_lastMessageCountReset room
      in if 1000 \<le> elapsed
         then room\<lparr>relay_messagesPerSecond := rate_per_second (relay_messageCount room) elapsed,
                   relay_messageCount := 0, relay_lastMessageCountReset := now\<rparr>
         else room)"

definition relay_destroy :: "RelayRoom \<Rightarrow> RelayRoom \<times> RelayServerMessage effect list" where
  "relay_destroy room =
     (room\<lparr>peers := []\<rparr>,
      map (\<lambda>(i, peer). Close (peer_ws peer) 1001 ''Room destroyed'') (peers room))"

section \<open>Session router, relay mode (src/unnamed/part_004)\<close>

text \<open>
  The handlers keep the room object they got at connection time; it is the object the
  registry holds under the room's id for as long as the client is a peer, so the model
  reads it from the registry. A handler reads the clock once.
\<close>

definition getOrCreateRoom_relay :: "Config \<Rightarrow> int \<Rightarrow> string \<Rightarrow> RelayRoom Server
    \<Rightarrow> RelayRoom \<times> RelayRoom Server" where
  "getOrCreateRoom_relay cfg now rid srv =
     (case map_of (rooms srv) rid of
        Some room \<Rightarrow> (room, srv)
      | None \<Rightarrow>
          let room = RelayRoom_new now rid (MAX_PLAYERS_PER_ROOM cfg)
          in (room, srv\<lparr>rooms := map_set rid room (rooms srv)\<rparr>))"

text \<open>
  The \<open>connection\<close> handler joins the room at once. The boolean tells whether the
  handlers for \<open>message\<close> and \<open>close\<close> were installed.
\<close>

definition on_connection_relay :: "Config \<Rightarrow> (ws \<Rightarrow> readyState) \<Rightarrow> int \<Rightarrow> ws \<Rightarrow> ClientMeta option
    \<Rightarrow> RelayRoom Server \<Rightarrow> bool \<times> RelayRoom Server \<times> RelayServerMessage effect list" where
  "on_connection_relay cfg rs now w meta srv =
     (case meta of
        None \<Rightarrow> (False, srv, [Close w 1011 ''Internal error''])
      | Some m \<Rightarrow>
          let (room, srv) = getOrCreateRoom_relay cfg now (roomId m) srv;
              (accepted, room, sent) = relay_join rs now (clientId m) w room;
              srv = put_room (roomId m) room srv
          in if \<not> accepted then (False, srv, sent @ [Close w 1013 ''Room full''])
             else (True, srv, sent @ [StartKeepAlive w (KEEPALIVE_MS cfg)]))"

definition on_message_relay :: "lib_decode \<Rightarrow> (ws \<Rightarrow> readyState) \<Rightarrow> int \<Rightarrow> ws \<Rightarrow> ClientMeta \<Rightarrow> bytes
    \<Rightarrow> RelayRoom Server \<Rightarrow> js_error + RelayRoom Server \<times> RelayServerMessage effect list" where
  "on_message_relay dec rs now w meta raw srv =
     (let (allowed, limiter) = allow now (clientId meta) (rateLimiter srv);
          srv = srv\<lparr>rateLimiter := limiter\<rparr>
      in if \<not> allowed then Inr (srv, [Send w (ErrorMessage RATE_LIMITED ''Rate limited'')])
         else
           (case decodeMessage_relay dec raw of
              None \<Rightarrow> Inr (srv, [Send w (ErrorMessage INVALID_MESSAGE ''Invalid message format'')])
            | Some message \<Rightarrow>
                and_then (js_get message ''type'') (\<lambda>type.
                if type = JStr ''hello'' then
                  and_then (js_get message ''protocolVersion'') (\<lambda>clientVersion.
                    (case clientVersion of
                       JNum v \<Rightarrow>
                         if v \<noteq> PROTOCOL_VERSION
                         then Inr (srv,
                                   [Send w (ErrorMessage BAD_PROTOCOL
                                      (''Protocol mismatch. Server='' @ string_of_int PROTOCOL_VERSION
                                         @ '', Client='' @ string_of_int v)),
                                    Close w 1008 ''BAD_PROTOCOL''])
                         else Inr (srv, [])
                     | _ \<Rightarrow> Inr (srv, [])))
                else
                  and_then (js_get message ''nonce'') (\<lambda>nonce.
                    (case (type = JStr ''ping'', nonce) of
                       (True, JStr n) \<Rightarrow> Inr (srv, [Send w (Pong n now)])
                     | _ \<Rightarrow>
                         (case map_of (rooms srv) (roomId meta) of
                            None \<Rightarrow> Inr (srv, [])
                          | Some room \<Rightarrow>
                              let (room, sent) = relay rs (clientId meta) message room
                              in Inr (put_room (roomId meta) room srv, sent)))))))"

definition on_close_relay :: "(ws \<Rightarrow> readyState) \<Rightarrow> ws \<Rightarrow> ClientMeta \<Rightarrow> RelayRoom Server
    \<Rightarrow> RelayRoom Server \<times> RelayServerMessage effect list" where
  "on_close_relay rs w meta srv =
     (let srv = srv\<lparr>rateLimiter := remove (clientId meta) (rateLimiter srv)\<rparr>
      in case map_of (rooms srv) (roomId meta) of
           None \<Rightarrow> (srv, [StopKeepAlive w])
         | Some r \<Rightarrow>
             let (r, sent) = relay_leave rs (clientId meta) r
             in if relay_playerCount r = 0 \<and> roomId meta \<noteq> ''lobby''
                then let (r, closed) = relay_destroy r
                     in (srv\<lparr>rooms := map_delete (roomId meta) (rooms srv)\<rparr>,
                         StopKeepAlive w # sent @ closed)
                else (put_room (roomId meta) r srv, StopKeepAlive w # sent))"

section \<open>Example configurations\<close>

text \<open>Concrete servers and frames for the examples that accompany the theorems.\<close>

definition example_config :: Config where
  "example_config =
     \<lparr>SNAPSHOT_HZ = 20, KEEPALIVE_MS = 30000, MAX_MESSAGES_PER_SECOND = 60,
      MAX_PLAYERS_PER_ROOM = 2\<rparr>"

definition ann :: Player where
  "ann = \<lparr>player_id = ''a'', player_ws = 11, displayName = JStr ''Ann'',
          state = neutral_state, joinedAt = 1\<rparr>"

definition bob :: Player where
  "bob = \<lparr>player_id = ''b'', player_ws = 12, displayName = JStr ''Bob'',
          state = neutral_state, joinedAt = 2\<rparr>"

text \<open>An authoritative room \<open>arena\<close> of capacity 2 with both places taken.\<close>

definition arena_full :: Room where
  "arena_full =
     \<lparr>room_id = ''arena'', players = [(''a'', ann), (''b'', bob)],
      tickInterval = Some (TickEvery 20), maxPlayers = 2, snapshotHz = 20, messageCount = 0,
      lastMessageCountReset = 0, messagesPerSecond = 0\<rparr>"

definition arena_server :: "Room Server" where
  "arena_server = \<lparr>rooms = [(''arena'', arena_full)], rateLimiter = RateLimiter_new 60\<rparr>"

text \<open>An authoritative server where \<open>lobby\<close> and \<open>duel\<close> have one member each.\<close>

definition one_player_room :: "string \<Rightarrow> Player \<Rightarrow> Room" where
  "one_player_room rid p =
     \<lparr>room_id = rid, players = [(player_id p, p)],
      tickInterval = Some (TickEvery 20), maxPlayers = 2, snapshotHz = 20, messageCount = 0,
      lastMessageCountReset = 0, messagesPerSecond = 0\<rparr>"

definition two_rooms_server :: "Room Server" where
  "two_rooms_server =
     \<lparr>rooms = [(''lobby'', one_player_room ''lobby'' ann), (''duel'', one_player_room ''duel'' bob)],
      rateLimiter = RateLimiter_new 60\<rparr>"

text \<open>A relay room \<open>arena\<close> of capacity 2 with both places taken, and one with a place left.\<close>

definition relay_arena :: "int \<Rightarrow> RelayRoom" where
  "relay_arena cap =
     \<lparr>relay_id = ''arena'',
      peers = [(''a'', \<lparr>peer_id = ''a'', peer_ws = 11, peer_joinedAt = 1\<rparr>),
               (''b'', \<lparr>peer_id = ''b'', peer_ws = 12, peer_joinedAt = 2\<rparr>)],
      relay_maxPlayers = cap, relay_messageCount = 0, relay_lastMessageCountReset = 0,
      relay_messagesPerSecond = 0\<rparr>"

definition relay_server :: "int \<Rightarrow> RelayRoom Server" where
  "relay_server cap = \<lparr>rooms = [(''arena'', relay_arena cap)], rateLimiter = RateLimiter_new 60\<rparr>"

text \<open>The MessagePack bytes of \<open>{type: "state"}\<close>, \<open>{type: "chat"}\<close>, \<open>{type: "hello"}\<close>,
  \<open>{type: "hello", protocolVersion: 2}\<close> and \<open>{type: "hello", protocolVersion: "2"}\<close>.\<close>

definition state_frame :: bytes where
  "state_frame = [129, 164, 116, 121, 112, 101, 165, 115, 116, 97, 116, 101]"

definition chat_frame :: bytes where
  "chat_frame = [129, 164, 116, 121, 112, 101, 164, 99, 104, 97, 116]"

definition hello_frame :: bytes where
  "hello_frame = [129, 164, 116, 121, 112, 101, 165, 104, 101, 108, 108, 111]"

definition hello_v2_frame :: bytes where
  "hello_v2_frame =
     [130, 164, 116, 121, 112, 101, 165, 104, 101, 108, 108, 111,
      175, 112, 114, 111, 116, 111, 99, 111, 108, 86, 101, 114, 115, 105, 111, 110, 2]"

definition hello_text_frame :: bytes where
  "hello_text_frame =
     [130, 164, 116, 121, 112, 101, 165, 104, 101, 108, 108, 111,
      175, 112, 114, 111, 116, 111, 99, 111, 108, 86, 101, 114, 115, 105, 111, 110, 161, 50]"


section \<open>Facts about the containers\<close>

lemma map_of_map_set: "map_of (map_set k v ps) k' = (if k' = k then Some v else map_of ps k')"
  by (induction ps) auto

lemma map_set_same: "map_of ps k = Some v \<Longrightarrow> map_set k v ps = ps"
  by (induction ps) (auto split: if_splits)

lemma length_map_set:
  "length (map_set k v ps) = (if k \<in> fst ` set ps then length ps else Suc (length ps))"
  by (induction ps) auto

lemma list_all_map_set: "list_all P ps \<Longrightarrow> P (k, v) \<Longrightarrow> list_all P (map_set k v ps)"
  by (induction ps) auto

lemma list_all_map_delete: "list_all P ps \<Longrightarrow> list_all P (map_delete k ps)"
  by (induction ps) auto

lemma map_fst_map_set:
  "map fst (map_set k v ps) = (if k \<in> fst ` set ps then map fst ps else map fst ps @ [k])"
  by (induction ps) auto

lemma distinct_map_set: "distinct (map fst ps) \<Longrightarrow> distinct (map fst (map_set k v ps))"
  by (simp add: map_fst_map_set)

lemma length_map_set_le: "length (map_set k v ps) \<le> Suc (length ps)"
  by (simp add: length_map_set)

lemma map_set_present_keys:
  assumes "map_of ps k = Some v'"
  shows "map fst (map_set k v ps) = map fst ps"
proof -
  from assms have "k \<in> fst ` set ps" by (metis map_of_eq_None_iff option.distinct(1))
  then show ?thesis by (simp add: map_fst_map_set)
qed

lemma map_set_present_length: "map_of ps k = Some v' \<Longrightarrow> length (map_set k v ps) = length ps"
  by (induction ps) (auto split: if_splits)

lemma set_map_delete_subset: "set (map_delete k ps) \<subseteq> set ps"
  by (induction ps) auto

lemma distinct_map_delete: "distinct (map fst ps) \<Longrightarrow> distinct (map fst (map_delete k ps))"
proof (induction ps)
  case Nil
  then show ?case by simp
next
  case (Cons p ps)
  have "fst ` set (map_delete k ps) \<subseteq> fst ` set ps"
    using set_map_delete_subset [of k ps] by blast
  with Cons show ?case by auto
qed

lemma length_map_delete: "length (map_delete k ps) \<le> length ps"
  by (induction ps) auto

lemma map_of_map_delete:
  "map_of (map_delete k ps) k' = (if k' = k then None else map_of ps k')"
  by (induction ps) auto

lemma sole_entry:
  assumes "map fst ps = [k]"
  shows "\<exists>v. ps = [(k, v)]"
proof -
  from assms obtain p where "ps = [p]" and "fst p = k" by (cases ps) auto
  then show ?thesis by (cases p) simp
qed


lemma map_set_fresh: "k \<notin> fst ` set ps \<Longrightarrow> map_set k v ps = ps @ [(k, v)]"
  by (induction ps) auto


section \<open>The rate limiter's window\<close>

lemma length_shift_expired: "length (shift_expired cutoff ts) \<le> length ts"
  by (induction ts) auto




lemma list_all_cleanup_entries:
  "list_all (\<lambda>(c, ts). int (length ts) \<le> n) ps \<Longrightarrow>
   list_all (\<lambda>(c, ts). int (length ts) \<le> n) (cleanup_entries cutoff ps)"
proof (induction ps)
  case Nil
  then show ?case by simp
next
  case (Cons p ps)
  obtain c ts where p: "p = (c, ts)" by (cases p)
  have "length (shift_expired cutoff ts) \<le> length ts" by (rule length_shift_expired)
  with Cons p show ?case by (auto simp: Let_def)
qed

text \<open>
  \<open>allow\<close> keeps the bound: it pushes only onto a pruned window shorter than
  \<open>maxMessages\<close>. A limit below zero is excluded: there the empty window that a
  rejected first call stores is already longer than the limit.
\<close>

lemma window_bounded_allow:
  assumes "window_bounded rl" and nonneg: "0 \<le> maxMessages rl"
  shows "window_bounded (snd (allow now c rl))"
proof -
  let ?ts = "shift_expired (now - windowMs rl) (stored_window rl c)"
  have pruned: "int (length ?ts) \<le> maxMessages rl"
  proof (cases "map_of (windows rl) c")
    case None
    then show ?thesis using nonneg by (simp add: stored_window_def)
  next
    case (Some ts)
    then have "(c, ts) \<in> set (windows rl)" by (rule map_of_SomeD)
    with assms(1) have "int (length ts) \<le> maxMessages rl"
      by (auto simp: window_bounded_def list_all_iff)
    moreover have "length (shift_expired (now - windowMs rl) ts) \<le> length ts"
      by (rule length_shift_expired)
    ultimately show ?thesis using Some by (simp add: stored_window_def)
  qed
  show ?thesis
  proof (cases "maxMessages rl \<le> int (length ?ts)")
    case True
    with assms(1) pruned show ?thesis
      by (simp add: allow_def Let_def stored_window_def window_bounded_def list_all_map_set)
  next
    case False
    with assms(1) show ?thesis
      by (simp add: allow_def Let_def stored_window_def window_bounded_def list_all_map_set)
  qed
qed

lemma window_bounded_remove: "window_bounded rl \<Longrightarrow> window_bounded (remove c rl)"
  by (simp add: remove_def window_bounded_def list_all_map_delete)

lemma window_bounded_cleanup: "window_bounded rl \<Longrightarrow> window_bounded (cleanup now rl)"
  by (simp add: cleanup_def window_bounded_def list_all_cleanup_entries)

lemma limiter_step_bounded:
  assumes "window_bounded rl" and "0 \<le> maxMessages rl"
  shows "window_bounded (limiter_step rl call) \<and>
         maxMessages (limiter_step rl call) = maxMessages rl"
proof (cases call)
  case (Allow now c)
  moreover have "maxMessages (snd (allow now c rl)) = maxMessages rl"
    by (simp add: allow_def Let_def)
  ultimately show ?thesis using assms by (simp add: window_bounded_allow)
next
  case (Remove c)
  moreover have "maxMessages (remove c rl) = maxMessages rl" by (simp add: remove_def)
  ultimately show ?thesis using assms by (simp add: window_bounded_remove)
next
  case (Cleanup now)
  moreover have "maxMessages (cleanup now rl) = maxMessages rl" by (simp add: cleanup_def)
  ultimately show ?thesis using assms by (simp add: window_bounded_cleanup)
qed

lemma limiter_run_bounded:
  "window_bounded rl \<Longrightarrow> 0 \<le> maxMessages rl \<Longrightarrow>
   window_bounded (limiter_run rl calls) \<and> maxMessages (limiter_run rl calls) = maxMessages rl"
  unfolding limiter_run_def
proof (induction calls arbitrary: rl)
  case Nil
  then show ?case by simp
next
  case (Cons call calls)
  from limiter_step_bounded [OF Cons.prems]
  have "window_bounded (limiter_step rl call)"
    and "maxMessages (limiter_step rl call) = maxMessages rl"
    by simp_all
  with Cons.IH [of "limiter_step rl call"] Cons.prems show ?case by simp
qed

lemma limiter_reachable_bounded:
  assumes "0 \<le> n"
  shows "window_bounded (limiter_run (RateLimiter_new n) calls) \<and>
         maxMessages (limiter_run (RateLimiter_new n) calls) = n"
proof -
  have "window_bounded (RateLimiter_new n)" and "maxMessages (RateLimiter_new n) = n"
    by (simp_all add: window_bounded_def RateLimiter_new_def)
  with limiter_run_bounded [of "RateLimiter_new n" calls] assms show ?thesis by simp
qed








text \<open>
  Claim C9. On a limiter built for \<open>n \<ge> 0\<close> messages, after any history of \<open>allow\<close>,
  \<open>remove\<close> and \<open>cleanup\<close> calls, every stored window holds at most \<open>n\<close> timestamps
  (\<open>window_bounded\<close>); the single steps are \<open>window_bounded_allow\<close>,
  \<open>window_bounded_remove\<close> and \<open>window_bounded_cleanup\<close>.
\<close>

theorem window_never_exceeds_maxMessages:
  assumes "0 \<le> n"
    and "map_of (windows (limiter_run (RateLimiter_new n) calls)) cid = Some ts"
  shows "window_bounded (limiter_run (RateLimiter_new n) calls) \<and> int (length ts) \<le> n"
proof -
  from limiter_reachable_bounded [OF assms(1), of calls]
  have bd: "window_bounded (limiter_run (RateLimiter_new n) calls)"
    and "maxMessages (limiter_run (RateLimiter_new n) calls) = n" by simp_all
  moreover from assms(2)
  have "(cid, ts) \<in> set (windows (limiter_run (RateLimiter_new n) calls))"
    by (rule map_of_SomeD)
  ultimately show ?thesis by (auto simp: window_bounded_def list_all_iff)
qed

theorem window_never_exceeds_maxMessages_witness:
  "windows (limiter_run (RateLimiter_new 2)
      [Allow 0 ''a'', Allow 1 ''a'', Allow 2 ''a'', Allow 1001 ''a'', Allow 1500 ''b'',
       Cleanup 2400, Remove ''a'', Allow 2450 ''b'', Allow 2500 ''b''])
     = [(''b'', [1500, 2450])]
   \<and> window_bounded (limiter_run (RateLimiter_new 2)
      [Allow 0 ''a'', Allow 1 ''a'', Allow 2 ''a'', Allow 1001 ''a'', Allow 1500 ''b'',
       Cleanup 2400, Remove ''a'', Allow 2450 ''b'', Allow 2500 ''b''])"
proof -
  let ?calls = "[Allow 0 ''a'', Allow 1 ''a'', Allow 2 ''a'', Allow 1001 ''a'', Allow 1500 ''b'',
       Cleanup 2400, Remove ''a'', Allow 2450 ''b'', Allow 2500 ''b'']"
  have run: "windows (limiter_run (RateLimiter_new 2) ?calls) = [(''b'', [1500, 2450])]"
    by (simp add: limiter_run_def RateLimiter_new_def allow_def stored_window_def Let_def
        cleanup_def remove_def)
  then have "map_of (windows (limiter_run (RateLimiter_new 2) ?calls)) ''b'' = Some [1500, 2450]"
    by simp
  with window_never_exceeds_maxMessages [of 2 ?calls "''b''" "[1500, 2450]"]
  have "window_bounded (limiter_run (RateLimiter_new 2) ?calls)" by simp
  with run show ?thesis by simp
qed


section \<open>The wire codec\<close>

lemma decodeMessage_auth_eq:
  "decodeMessage_auth dec data
     = (case dec data of Inl e \<Rightarrow> None | Inr v \<Rightarrow> if has_type_key v then Some v else None)"
proof (cases "dec data")
  case (Inl e)
  then show ?thesis by (simp add: decodeMessage_auth_def decodeMessage_auth_body_def catch_null_def)
next
  case (Inr v)
  then show ?thesis
    by (cases v) (simp_all add: decodeMessage_auth_def decodeMessage_auth_body_def catch_null_def)
qed

lemma decodeMessage_relay_eq:
  "decodeMessage_relay dec data
     = (case dec data of Inl e \<Rightarrow> None | Inr v \<Rightarrow> if object_not_array v then Some v else None)"
proof (cases "dec data")
  case (Inl e)
  then show ?thesis by (simp add: decodeMessage_relay_def decodeMessage_relay_body_def catch_null_def)
next
  case (Inr v)
  then show ?thesis
    by (cases v) (simp_all add: decodeMessage_relay_def decodeMessage_relay_body_def catch_null_def)
qed

text \<open>
  Claim C3, as the code has it. \<open>decodeMessage\<close> returns for every input, whatever the
  package's \<open>decode\<close> does on it (a throw is caught and gives null). The decoder of
  part_001 returns the decoded value exactly when it is a keyed object with an own key
  \<open>type\<close>, whatever that key holds, and null otherwise; the decoder of protocol.ts
  returns the decoded value exactly when it is an object that is no array, with or without
  a key \<open>type\<close>, and null otherwise.
\<close>

theorem decodeMessage_null_exactly:
  "(decodeMessage_auth dec data = Some v \<longleftrightarrow> dec data = Inr v \<and> has_type_key v)
   \<and> (decodeMessage_auth dec data = None \<longleftrightarrow>
        (\<exists>e. dec data = Inl e) \<or> (\<exists>u. dec data = Inr u \<and> \<not> has_type_key u))
   \<and> (decodeMessage_relay dec data = Some v \<longleftrightarrow> dec data = Inr v \<and> object_not_array v)
   \<and> (decodeMessage_relay dec data = None \<longleftrightarrow>
        (\<exists>e. dec data = Inl e) \<or> (\<exists>u. dec data = Inr u \<and> \<not> object_not_array u))"
  unfolding decodeMessage_auth_eq decodeMessage_relay_eq
  by (cases "dec data") auto

theorem decodeMessage_null_exactly_witness:
  "decodeMessage_auth msgpack_decode [129,164,116,121,112,101,165,104,101,108,108,111]
     = Some (JObj [(''type'', JStr ''hello'')])
   \<and> decodeMessage_auth msgpack_decode [128] = None
   \<and> decodeMessage_auth msgpack_decode [193] = None
   \<and> decodeMessage_relay msgpack_decode [128] = Some (JObj [])
   \<and> decodeMessage_relay msgpack_decode [144] = None"
proof -
  have hello: "msgpack_decode [129,164,116,121,112,101,165,104,101,108,108,111]
      = Inr (JObj [(''type'', JStr ''hello'')])" by code_simp
  have empty: "msgpack_decode [128] = Inr (JObj [])" by code_simp
  have arr: "msgpack_decode [144] = Inr (JArr [])" by code_simp
  have bad: "msgpack_decode [193] = Inl DecodeError" by code_simp
  from decodeMessage_null_exactly [of msgpack_decode
      "[129,164,116,121,112,101,165,104,101,108,108,111]" "JObj [(''type'', JStr ''hello'')]"] hello
  have "decodeMessage_auth msgpack_decode [129,164,116,121,112,101,165,104,101,108,108,111]
     = Some (JObj [(''type'', JStr ''hello'')])" by simp
  moreover from decodeMessage_null_exactly [of msgpack_decode "[128]" "JObj []"] empty
  have "decodeMessage_auth msgpack_decode [128] = None"
    and "decodeMessage_relay msgpack_decode [128] = Some (JObj [])" by simp_all
  moreover from decodeMessage_null_exactly [of msgpack_decode "[193]"] bad
  have "decodeMessage_auth msgpack_decode [193] = None" by simp
  moreover from decodeMessage_null_exactly [of msgpack_decode "[144]"] arr
  have "decodeMessage_relay msgpack_decode [144] = None" by simp
  ultimately show ?thesis by simp
qed

text \<open>
  The claim as stated asks for null whenever the tag is absent or no string. On the bytes
  of \<open>{type: 42}\<close> the decoder of part_001 returns the object, and on the bytes of
  \<open>{}\<close> the decoder of protocol.ts returns the object.
\<close>

theorem decodeMessage_wrong_tag_counterexample:
  "decodeMessage_auth msgpack_decode [129,164,116,121,112,101,42] = Some (JObj [(''type'', JNum 42)])
   \<and> \<not> spec_well_formed (JObj [(''type'', JNum 42)])
   \<and> decodeMessage_relay msgpack_decode [128] = Some (JObj [])
   \<and> \<not> spec_well_formed (JObj [])"
proof -
  have "msgpack_decode [129,164,116,121,112,101,42] = Inr (JObj [(''type'', JNum 42)])"
    by code_simp
  moreover have "msgpack_decode [128] = Inr (JObj [])" by code_simp
  ultimately show ?thesis by (simp add: decodeMessage_auth_eq decodeMessage_relay_eq)
qed

lemma has_type_key_ServerMessage: "has_type_key (js_of_ServerMessage m)"
  by (cases m) simp_all

lemma object_not_array_RelayServerMessage: "object_not_array (js_of_RelayServerMessage r)"
  by (cases r) simp_all


section \<open>The authoritative room\<close>

subsection \<open>One entry per id and the capacity, at all times\<close>

lemma room_ok_join:
  assumes "room_ok room"
  shows "room_ok (fst (snd (join rs now i w dn room)))"
proof (cases "isFull room")
  case True
  with assms show ?thesis by (simp add: join_def)
next
  case False
  let ?p = "\<lparr>player_id = i, player_ws = w, displayName = dn, state = neutral_state, joinedAt = now\<rparr>"
  let ?ps = "map_set i ?p (players room)"
  have ps: "players (fst (snd (join rs now i w dn room))) = ?ps"
    and mx: "maxPlayers (fst (snd (join rs now i w dn room))) = maxPlayers room"
    using False by (simp_all add: join_def Let_def startTickLoop_def)
  from False have "int (length (players room)) < maxPlayers room" by (simp add: isFull_def)
  moreover have "length ?ps \<le> Suc (length (players room))" by (rule length_map_set_le)
  ultimately have "int (length ?ps) \<le> maxPlayers room" by simp
  moreover from assms have "distinct (map fst ?ps)" by (simp add: room_ok_def distinct_map_set)
  ultimately show ?thesis unfolding room_ok_def ps mx by simp
qed

lemma room_ok_leave:
  assumes "room_ok room"
  shows "room_ok (fst (leave rs i room))"
proof (cases "map_of (players room) i")
  case None
  with assms show ?thesis by (simp add: leave_def)
next
  case (Some p)
  have ps: "players (fst (leave rs i room)) = map_delete i (players room)"
    and mx: "maxPlayers (fst (leave rs i room)) = maxPlayers room"
    using Some by (simp_all add: leave_def Let_def stopTickLoop_def)
  have "length (map_delete i (players room)) \<le> length (players room)" by (rule length_map_delete)
  with assms show ?thesis unfolding room_ok_def ps mx by (simp add: distinct_map_delete)
qed

lemma room_ok_updatePlayerState:
  assumes "room_ok room"
  shows "room_ok (updatePlayerState now i st room)"
proof (cases "map_of (players room) i")
  case None
  with assms show ?thesis by (simp add: updatePlayerState_def)
next
  case (Some p)
  let ?ps = "map_set i (p\<lparr>state := JObj (map_set ''timestamp'' (JNum now) (own_props st))\<rparr>) (players room)"
  have ps: "players (updatePlayerState now i st room) = ?ps"
    and mx: "maxPlayers (updatePlayerState now i st room) = maxPlayers room"
    using Some by (simp_all add: updatePlayerState_def)
  from Some have "map fst ?ps = map fst (players room)" by (rule map_set_present_keys)
  then have "distinct (map fst ?ps) = distinct (map fst (players room))"
    and "length ?ps = length (players room)" by (simp, metis length_map)
  with assms show ?thesis unfolding room_ok_def ps mx by simp
qed

lemma room_ok_chat:
  assumes "room_ok room" and "chat rs i m room = Inr (room', sent)"
  shows "room_ok room'"
  using assms by (auto simp: chat_def room_ok_def split: option.splits sum.splits)

lemma room_ok_tick: "room_ok room \<Longrightarrow> room_ok (fst (tick rs now now' room))"
  by (simp add: tick_def Let_def room_ok_def)

lemma room_ok_destroy:
  assumes "room_ok room"
  shows "room_ok (fst (destroy room))"
proof -
  from assms have "0 \<le> maxPlayers room" by (simp add: room_ok_def)
  then show ?thesis by (simp add: destroy_def Let_def room_ok_def stopTickLoop_def)
qed

lemma room_step_config:
  "room_id (room_step room call) = room_id room \<and> maxPlayers (room_step room call) = maxPlayers room"
proof (cases call)
  case (Join rs now i w dn)
  then show ?thesis by (simp add: join_def Let_def startTickLoop_def)
next
  case (Leave rs i)
  then show ?thesis by (simp add: leave_def Let_def stopTickLoop_def split: option.splits)
next
  case (UpdatePlayerState now i st)
  then show ?thesis by (simp add: updatePlayerState_def split: option.splits)
next
  case (ChatFrom rs i m)
  then show ?thesis by (auto simp: chat_def split: option.splits sum.splits)
next
  case (Tick rs now now')
  then show ?thesis by (simp add: tick_def Let_def)
next
  case Destroy
  then show ?thesis by (simp add: destroy_def Let_def stopTickLoop_def)
qed

lemma room_step_ok: "room_ok room \<Longrightarrow> room_ok (room_step room call)"
proof (cases call)
  case (ChatFrom rs i m)
  assume "room_ok room"
  with ChatFrom show ?thesis
    by (cases "chat rs i m room") (auto dest: room_ok_chat)
qed (simp_all add: room_ok_join room_ok_leave room_ok_updatePlayerState room_ok_tick room_ok_destroy)

lemma room_run_ok:
  "room_ok room \<Longrightarrow>
   room_ok (room_run room calls) \<and> room_id (room_run room calls) = room_id room
     \<and> maxPlayers (room_run room calls) = maxPlayers room"
  unfolding room_run_def
proof (induction calls arbitrary: room)
  case Nil
  then show ?case by simp
next
  case (Cons call calls)
  from Cons.prems have "room_ok (room_step room call)" by (rule room_step_ok)
  from Cons.IH [OF this] room_step_config [of room call] show ?case by simp
qed

lemma room_reachable:
  assumes "0 \<le> cap"
  shows "room_ok (room_run (Room_new t0 rid cap hz) calls)
     \<and> room_id (room_run (Room_new t0 rid cap hz) calls) = rid
     \<and> maxPlayers (room_run (Room_new t0 rid cap hz) calls) = cap"
proof -
  from assms have "room_ok (Room_new t0 rid cap hz)" by (simp add: room_ok_def Room_new_def)
  from room_run_ok [OF this, of calls] show ?thesis by (simp add: Room_new_def)
qed


lemma room_step_distinct:
  assumes "distinct (map fst (players room))"
  shows "distinct (map fst (players (room_step room call)))"
proof (cases call)
  case (Join rs now i w dn)
  with assms show ?thesis
    by (simp add: join_def Let_def startTickLoop_def distinct_map_set)
next
  case (Leave rs i)
  with assms show ?thesis
    by (simp add: leave_def Let_def stopTickLoop_def distinct_map_delete split: option.splits)
next
  case (UpdatePlayerState now i st)
  with assms show ?thesis
    by (simp add: updatePlayerState_def distinct_map_set split: option.splits)
next
  case (ChatFrom rs i m)
  with assms show ?thesis by (auto simp: chat_def split: option.splits sum.splits)
next
  case (Tick rs now now')
  with assms show ?thesis by (simp add: tick_def Let_def)
next
  case Destroy
  then show ?thesis by (simp add: destroy_def Let_def)
qed

lemma room_reachable_distinct:
  "distinct (map fst (players (room_run (Room_new t0 rid cap hz) calls)))"
proof -
  have "distinct (map fst (players room)) \<Longrightarrow> distinct (map fst (players (foldl room_step room calls)))"
    for room
    by (induction calls arbitrary: room) (simp_all add: room_step_distinct)
  then show ?thesis by (simp add: room_run_def Room_new_def)
qed

lemma arena_two:
  "room_run (Room_new 0 ''arena'' 2 20)
     [Join (\<lambda>w. OPEN) 1 ''a'' 11 (JStr ''Ann''), Join (\<lambda>w. OPEN) 2 ''b'' 12 (JStr ''Bob'')]
   = \<lparr>room_id = ''arena'',
      players = [(''a'', \<lparr>player_id = ''a'', player_ws = 11, displayName = JStr ''Ann'',
                           state = neutral_state, joinedAt = 1\<rparr>),
                 (''b'', \<lparr>player_id = ''b'', player_ws = 12, displayName = JStr ''Bob'',
                           state = neutral_state, joinedAt = 2\<rparr>)],
      tickInterval = Some (TickEvery 20), maxPlayers = 2, snapshotHz = 20, messageCount = 0,
      lastMessageCountReset = 0, messagesPerSecond = 0\<rparr>"
  by (simp add: room_run_def Room_new_def join_def isFull_def Let_def startTickLoop_def
      broadcast_def)

text \<open>
  Claim C1. In a room built with capacity \<open>cap \<ge> 0\<close> and driven by any history of calls,
  the number of members is at most \<open>cap\<close>; when it equals \<open>cap\<close>, \<open>join\<close> returns
  false, leaves the room as it was, and its one effect is the ROOM_FULL error envelope,
  naming the room and the capacity, sent to the joining socket; when it is below \<open>cap\<close>,
  \<open>join\<close> returns true and the id is a member afterwards.
\<close>

theorem join_respects_capacity:
  assumes "0 \<le> cap" and "room = room_run (Room_new t0 rid cap hz) calls"
  shows "int (length (players room)) \<le> cap
     \<and> (int (length (players room)) = cap \<longrightarrow>
          join rs now i w dn room
            = (False, room,
               [Send w (Error ROOM_FULL
                  (''Room \"'' @ rid @ ''\" is full ('' @ string_of_int cap @ '' players)''))]))
     \<and> (int (length (players room)) < cap \<longrightarrow>
          fst (join rs now i w dn room) \<and> hasPlayer (fst (snd (join rs now i w dn room))) i)"
proof -
  from room_reachable [OF assms(1), of t0 rid hz calls]
  have ok: "room_ok room" and rid: "room_id room = rid" and cap: "maxPlayers room = cap"
    unfolding assms(2) by simp_all
  from ok cap have "int (length (players room)) \<le> cap" by (simp add: room_ok_def)
  moreover have "join rs now i w dn room
            = (False, room,
               [Send w (Error ROOM_FULL
                  (''Room \"'' @ rid @ ''\" is full ('' @ string_of_int cap @ '' players)''))])"
    if "int (length (players room)) = cap"
    using that rid cap by (simp add: join_def isFull_def room_full_message_def)
  moreover have "fst (join rs now i w dn room) \<and> hasPlayer (fst (snd (join rs now i w dn room))) i"
    if "int (length (players room)) < cap"
    using that cap by (simp add: join_def isFull_def Let_def hasPlayer_def startTickLoop_def map_of_map_set)
  ultimately show ?thesis by blast
qed


theorem join_respects_capacity_witness:
  "length (players (room_run (Room_new 0 ''arena'' 2 20)
      [Join (\<lambda>w. OPEN) 1 ''a'' 11 (JStr ''Ann''), Join (\<lambda>w. OPEN) 2 ''b'' 12 (JStr ''Bob'')])) = 2
   \<and> join (\<lambda>w. OPEN) 3 ''c'' 13 (JStr ''Cy'')
        (room_run (Room_new 0 ''arena'' 2 20)
          [Join (\<lambda>w. OPEN) 1 ''a'' 11 (JStr ''Ann''), Join (\<lambda>w. OPEN) 2 ''b'' 12 (JStr ''Bob'')])
      = (False,
         room_run (Room_new 0 ''arena'' 2 20)
          [Join (\<lambda>w. OPEN) 1 ''a'' 11 (JStr ''Ann''), Join (\<lambda>w. OPEN) 2 ''b'' 12 (JStr ''Bob'')],
         [Send 13 (Error ''ROOM_FULL'' ''Room \"arena\" is full (2 players)'')])
   \<and> fst (join (\<lambda>w. OPEN) 3 ''c'' 13 (JStr ''Cy'') (room_run (Room_new 0 ''arena'' 2 20) []))"
proof -
  let ?two = "room_run (Room_new 0 ''arena'' 2 20)
      [Join (\<lambda>w. OPEN) 1 ''a'' 11 (JStr ''Ann''), Join (\<lambda>w. OPEN) 2 ''b'' 12 (JStr ''Bob'')]"
  let ?none = "room_run (Room_new 0 ''arena'' 2 20) []"
  have len: "length (players ?two) = 2" by (simp add: arena_two)
  have empty: "length (players ?none) = 0" by (simp add: room_run_def Room_new_def)
  have "join (\<lambda>w. OPEN) 3 ''c'' 13 (JStr ''Cy'') ?two
      = (False, ?two, [Send 13 (Error ''ROOM_FULL'' ''Room \"arena\" is full (2 players)'')])"
    using join_respects_capacity [OF _ refl, of 2 0 "''arena''" 20
        "[Join (\<lambda>w. OPEN) 1 ''a'' 11 (JStr ''Ann''), Join (\<lambda>w. OPEN) 2 ''b'' 12 (JStr ''Bob'')]"
        "\<lambda>w. OPEN" 3 "''c''" 13 "JStr ''Cy''"] len
    by (simp add: ROOM_FULL_def string_of_int_def digit_char_def)
  moreover have "fst (join (\<lambda>w. OPEN) 3 ''c'' 13 (JStr ''Cy'') ?none)"
    using join_respects_capacity [OF _ refl, of 2 0 "''arena''" 20 "[]"
        "\<lambda>w. OPEN" 3 "''c''" 13 "JStr ''Cy''"] empty
    by simp
  ultimately show ?thesis using len by simp
qed

subsection \<open>Joining twice\<close>

lemma broadcast_to_map_set_excluded:
  "broadcast_to rs (map_set i p ps) msg (Some i) = broadcast_to rs ps msg (Some i)"
  by (induction ps) auto


text \<open>
  Claim C8. When the id is already a member: below capacity, \<open>join\<close> returns true, puts a
  fresh record (the new socket, the neutral state, the new join time) where the old one
  stood, keeps the number of members, and sends \<open>player_joined\<close> to the other members
  whose sockets are open; at capacity, it is rejected with the ROOM_FULL envelope and the
  room stays as it was.
\<close>

theorem duplicate_join:
  assumes "map_of (players room) i = Some old"
  shows "(int (length (players room)) < maxPlayers room \<longrightarrow>
            fst (join rs now i w dn room)
          \<and> players (fst (snd (join rs now i w dn room)))
              = map_set i \<lparr>player_id = i, player_ws = w, displayName = dn,
                            state = neutral_state, joinedAt = now\<rparr> (players room)
          \<and> map_of (players (fst (snd (join rs now i w dn room)))) i
              = Some \<lparr>player_id = i, player_ws = w, displayName = dn,
                      state = neutral_state, joinedAt = now\<rparr>
          \<and> length (players (fst (snd (join rs now i w dn room)))) = length (players room)
          \<and> snd (snd (join rs now i w dn room))
              = broadcast_to rs (players room) (PlayerJoined i dn) (Some i))
       \<and> (int (length (players room)) = maxPlayers room \<longrightarrow>
            join rs now i w dn room
              = (False, room, [Send w (Error ROOM_FULL (room_full_message room))]))"
proof -
  let ?p = "\<lparr>player_id = i, player_ws = w, displayName = dn, state = neutral_state, joinedAt = now\<rparr>"
  have acc: "fst (join rs now i w dn room)
          \<and> players (fst (snd (join rs now i w dn room))) = map_set i ?p (players room)
          \<and> map_of (players (fst (snd (join rs now i w dn room)))) i = Some ?p
          \<and> length (players (fst (snd (join rs now i w dn room)))) = length (players room)
          \<and> snd (snd (join rs now i w dn room))
              = broadcast_to rs (players room) (PlayerJoined i dn) (Some i)"
    if "int (length (players room)) < maxPlayers room"
  proof -
    from that have nf: "\<not> isFull room" by (simp add: isFull_def)
    have ps: "players (fst (snd (join rs now i w dn room))) = map_set i ?p (players room)"
      using nf by (simp add: join_def Let_def startTickLoop_def)
    have sent: "snd (snd (join rs now i w dn room))
        = broadcast_to rs (map_set i ?p (players room)) (PlayerJoined i dn) (Some i)"
      using nf by (simp add: join_def Let_def broadcast_def)
    have "fst (join rs now i w dn room)" using nf by (simp add: join_def Let_def)
    with ps sent assms show ?thesis
      by (simp add: map_of_map_set map_set_present_length broadcast_to_map_set_excluded)
  qed
  have rej: "join rs now i w dn room = (False, room, [Send w (Error ROOM_FULL (room_full_message room))])"
    if "int (length (players room)) = maxPlayers room"
    using that by (simp add: join_def isFull_def)
  from acc rej show ?thesis by blast
qed


theorem duplicate_join_witness:
  "fst (join (\<lambda>w. OPEN) 7 ''a'' 15 (JStr ''Ann2'')
          (room_run (Room_new 0 ''arena'' 2 20)
             [Join (\<lambda>w. OPEN) 1 ''a'' 11 (JStr ''Ann''), Join (\<lambda>w. OPEN) 2 ''b'' 12 (JStr ''Bob'')]
           \<lparr>maxPlayers := 3\<rparr>))
   \<and> players (fst (snd (join (\<lambda>w. OPEN) 7 ''a'' 15 (JStr ''Ann2'')
          (room_run (Room_new 0 ''arena'' 2 20)
             [Join (\<lambda>w. OPEN) 1 ''a'' 11 (JStr ''Ann''), Join (\<lambda>w. OPEN) 2 ''b'' 12 (JStr ''Bob'')]
           \<lparr>maxPlayers := 3\<rparr>))))
      = [(''a'', \<lparr>player_id = ''a'', player_ws = 15, displayName = JStr ''Ann2'',
                   state = neutral_state, joinedAt = 7\<rparr>),
         (''b'', \<lparr>player_id = ''b'', player_ws = 12, displayName = JStr ''Bob'',
                   state = neutral_state, joinedAt = 2\<rparr>)]
   \<and> snd (snd (join (\<lambda>w. OPEN) 7 ''a'' 15 (JStr ''Ann2'')
          (room_run (Room_new 0 ''arena'' 2 20)
             [Join (\<lambda>w. OPEN) 1 ''a'' 11 (JStr ''Ann''), Join (\<lambda>w. OPEN) 2 ''b'' 12 (JStr ''Bob'')]
           \<lparr>maxPlayers := 3\<rparr>)))
      = [Send 12 (PlayerJoined ''a'' (JStr ''Ann2''))]
   \<and> join (\<lambda>w. OPEN) 7 ''a'' 15 (JStr ''Ann2'')
        (room_run (Room_new 0 ''arena'' 2 20)
           [Join (\<lambda>w. OPEN) 1 ''a'' 11 (JStr ''Ann''), Join (\<lambda>w. OPEN) 2 ''b'' 12 (JStr ''Bob'')])
      = (False,
         room_run (Room_new 0 ''arena'' 2 20)
           [Join (\<lambda>w. OPEN) 1 ''a'' 11 (JStr ''Ann''), Join (\<lambda>w. OPEN) 2 ''b'' 12 (JStr ''Bob'')],
         [Send 15 (Error ''ROOM_FULL'' ''Room \"arena\" is full (2 players)'')])"
proof -
  let ?two = "room_run (Room_new 0 ''arena'' 2 20)
      [Join (\<lambda>w. OPEN) 1 ''a'' 11 (JStr ''Ann''), Join (\<lambda>w. OPEN) 2 ''b'' 12 (JStr ''Bob'')]"
  let ?old = "\<lparr>player_id = ''a'', player_ws = 11, displayName = JStr ''Ann'',
               state = neutral_state, joinedAt = 1\<rparr>"
  have member: "map_of (players ?two) ''a'' = Some ?old"
    and member3: "map_of (players (?two\<lparr>maxPlayers := 3\<rparr>)) ''a'' = Some ?old"
    by (simp_all add: arena_two)
  have below: "int (length (players (?two\<lparr>maxPlayers := 3\<rparr>))) < maxPlayers (?two\<lparr>maxPlayers := 3\<rparr>)"
    and full: "int (length (players ?two)) = maxPlayers ?two"
    by (simp_all add: arena_two)
  from duplicate_join [OF member3, of "\<lambda>w. OPEN" 7 15 "JStr ''Ann2''"] below
  have "fst (join (\<lambda>w. OPEN) 7 ''a'' 15 (JStr ''Ann2'') (?two\<lparr>maxPlayers := 3\<rparr>))"
    and "players (fst (snd (join (\<lambda>w. OPEN) 7 ''a'' 15 (JStr ''Ann2'') (?two\<lparr>maxPlayers := 3\<rparr>))))
      = map_set ''a'' \<lparr>player_id = ''a'', player_ws = 15, displayName = JStr ''Ann2'',
                        state = neutral_state, joinedAt = 7\<rparr> (players (?two\<lparr>maxPlayers := 3\<rparr>))"
    and "snd (snd (join (\<lambda>w. OPEN) 7 ''a'' 15 (JStr ''Ann2'') (?two\<lparr>maxPlayers := 3\<rparr>)))
      = broadcast_to (\<lambda>w. OPEN) (players (?two\<lparr>maxPlayers := 3\<rparr>))
          (PlayerJoined ''a'' (JStr ''Ann2'')) (Some ''a'')"
    by simp_all
  moreover from duplicate_join [OF member, of "\<lambda>w. OPEN" 7 15 "JStr ''Ann2''"] full
  have "join (\<lambda>w. OPEN) 7 ''a'' 15 (JStr ''Ann2'') ?two
      = (False, ?two, [Send 15 (Error ROOM_FULL (room_full_message ?two))])"
    by simp
  moreover have "room_full_message ?two = ''Room \"arena\" is full (2 players)''"
    by (simp add: arena_two room_full_message_def string_of_int_def digit_char_def)
  ultimately show ?thesis by (simp add: arena_two ROOM_FULL_def)
qed

subsection \<open>State updates and the snapshot\<close>

lemma snapshot_players_lookup:
  "distinct (map fst ps) \<Longrightarrow>
   map_of (snapshot_players ps acc) k
     = (case map_of ps k of
          Some p \<Rightarrow> Some (JObj (map_set ''displayName'' (displayName p) (own_props (state p))))
        | None \<Rightarrow> map_of acc k)"
proof (induction ps arbitrary: acc)
  case Nil
  then show ?case by simp
next
  case (Cons e ps)
  obtain i p where e: "e = (i, p)" by (cases e)
  from Cons.prems e have "i \<notin> fst ` set ps" and d: "distinct (map fst ps)" by auto
  then have "map_of ps i = None" by (simp add: map_of_eq_None_iff)
  with Cons.IH [OF d] e show ?case by (auto simp: map_of_map_set split: option.splits)
qed

lemma snapshot_players_distinct:
  "distinct (map fst acc) \<Longrightarrow> distinct (map fst (snapshot_players ps acc))"
  by (induction ps arbitrary: acc) (auto simp: distinct_map_set)


text \<open>
  Claim C4. In a room driven by any history of calls, \<open>updatePlayerState\<close> leaves the
  room as it was for an id that is no member; for a member it stores the own properties of
  the given value with \<open>timestamp\<close> set to the clock (the function has no effect other
  than the new room: nothing is sent). After two updates of one member, the snapshot that
  the next \<open>tick\<close> broadcasts has one entry per id, and the member's entry is the second
  value with its stamp and the display name.
\<close>

theorem last_write_wins:
  assumes "room = room_run (Room_new t0 rid cap hz) calls"
  shows "(map_of (players room) i = None \<longrightarrow> updatePlayerState now i st room = room)
       \<and> (map_of (players room) i = Some p \<longrightarrow>
            map_of (players (updatePlayerState now i st room)) i
              = Some (p\<lparr>state := JObj (map_set ''timestamp'' (JNum now) (own_props st))\<rparr>)
          \<and> snd (tick rs now now' (updatePlayerState t2 i s2 (updatePlayerState t1 i s1 room)))
              = broadcast rs (updatePlayerState t2 i s2 (updatePlayerState t1 i s1 room))
                  (Snapshot (snapshot_players
                     (players (updatePlayerState t2 i s2 (updatePlayerState t1 i s1 room))) []) now)
                  None
          \<and> distinct (map fst (snapshot_players
                 (players (updatePlayerState t2 i s2 (updatePlayerState t1 i s1 room))) []))
          \<and> map_of (snapshot_players
                 (players (updatePlayerState t2 i s2 (updatePlayerState t1 i s1 room))) []) i
              = Some (JObj (map_set ''displayName'' (displayName p)
                              (map_set ''timestamp'' (JNum t2) (own_props s2)))))"
proof -
  have ids: "distinct (map fst (players room))"
    unfolding assms by (rule room_reachable_distinct)
  have unknown: "updatePlayerState now i st room = room" if "map_of (players room) i = None"
    using that by (simp add: updatePlayerState_def)
  have known: "map_of (players (updatePlayerState now i st room)) i
      = Some (p\<lparr>state := JObj (map_set ''timestamp'' (JNum now) (own_props st))\<rparr>)"
    if "map_of (players room) i = Some p"
    using that by (simp add: updatePlayerState_def map_of_map_set)
  let ?r1 = "updatePlayerState t1 i s1 room"
  let ?r2 = "updatePlayerState t2 i s2 ?r1"
  let ?sp = "snapshot_players (players ?r2) []"
  have two: "snd (tick rs now now' ?r2) = broadcast rs ?r2 (Snapshot ?sp now) None
      \<and> distinct (map fst ?sp)
      \<and> map_of ?sp i = Some (JObj (map_set ''displayName'' (displayName p)
                                 (map_set ''timestamp'' (JNum t2) (own_props s2))))"
    if mem: "map_of (players room) i = Some p"
  proof -
    from mem have p1: "map_of (players ?r1) i = Some (p\<lparr>state := JObj (map_set ''timestamp'' (JNum t1) (own_props s1))\<rparr>)"
      by (simp add: updatePlayerState_def map_of_map_set)
    then have p2: "map_of (players ?r2) i = Some (p\<lparr>state := JObj (map_set ''timestamp'' (JNum t2) (own_props s2))\<rparr>)"
      by (simp add: updatePlayerState_def [of t2] map_of_map_set)
    from mem have "map fst (players ?r1) = map fst (players room)"
      by (simp add: updatePlayerState_def map_set_present_keys)
    moreover from p1 have "map fst (players ?r2) = map fst (players ?r1)"
      by (simp add: updatePlayerState_def [of t2] map_set_present_keys)
    ultimately have d: "distinct (map fst (players ?r2))" using ids by simp
    from p2 have "players ?r2 \<noteq> []" by auto
    then have "snd (tick rs now now' ?r2) = broadcast rs ?r2 (Snapshot ?sp now) None"
      by (simp add: tick_def Let_def)
    moreover have "distinct (map fst ?sp)" by (simp add: snapshot_players_distinct)
    moreover from snapshot_players_lookup [OF d, of "[]" i] p2
    have "map_of ?sp i = Some (JObj (map_set ''displayName'' (displayName p)
                                 (map_set ''timestamp'' (JNum t2) (own_props s2))))"
      by simp
    ultimately show ?thesis by simp
  qed
  from unknown known two show ?thesis by blast
qed


theorem last_write_wins_witness:
  "updatePlayerState 5 ''z'' (JObj [(''action'', JStr ''run'')])
      (room_run (Room_new 0 ''arena'' 2 20)
        [Join (\<lambda>w. OPEN) 1 ''a'' 11 (JStr ''Ann''), Join (\<lambda>w. OPEN) 2 ''b'' 12 (JStr ''Bob'')])
    = room_run (Room_new 0 ''arena'' 2 20)
        [Join (\<lambda>w. OPEN) 1 ''a'' 11 (JStr ''Ann''), Join (\<lambda>w. OPEN) 2 ''b'' 12 (JStr ''Bob'')]
   \<and> map_of (snapshot_players (players
        (updatePlayerState 6 ''a'' (JObj [(''action'', JStr ''jump'')])
          (updatePlayerState 5 ''a'' (JObj [(''action'', JStr ''run'')])
            (room_run (Room_new 0 ''arena'' 2 20)
              [Join (\<lambda>w. OPEN) 1 ''a'' 11 (JStr ''Ann''),
               Join (\<lambda>w. OPEN) 2 ''b'' 12 (JStr ''Bob'')])))) []) ''a''
      = Some (JObj [(''action'', JStr ''jump''), (''timestamp'', JNum 6),
                    (''displayName'', JStr ''Ann'')])"
proof -
  let ?calls = "[Join (\<lambda>w. OPEN) 1 ''a'' 11 (JStr ''Ann''), Join (\<lambda>w. OPEN) 2 ''b'' 12 (JStr ''Bob'')]"
  let ?two = "room_run (Room_new 0 ''arena'' 2 20) ?calls"
  let ?ann = "\<lparr>player_id = ''a'', player_ws = 11, displayName = JStr ''Ann'',
               state = neutral_state, joinedAt = 1\<rparr>"
  have unknown: "map_of (players ?two) ''z'' = None"
    and member: "map_of (players ?two) ''a'' = Some ?ann"
    by (simp_all add: arena_two)
  from last_write_wins [OF refl, where cap = 2 and ?t0.0 = 0 and rid = "''arena''" and hz = 20
      and calls = ?calls and i = "''z''" and now = 5 and st = "JObj [(''action'', JStr ''run'')]"]
    unknown
  have "updatePlayerState 5 ''z'' (JObj [(''action'', JStr ''run'')]) ?two = ?two" by simp
  moreover
  from last_write_wins [OF refl, where cap = 2 and ?t0.0 = 0 and rid = "''arena''" and hz = 20
      and calls = ?calls and i = "''a''" and p = ?ann
      and ?t2.0 = 6 and ?s2.0 = "JObj [(''action'', JStr ''jump'')]"
      and ?t1.0 = 5 and ?s1.0 = "JObj [(''action'', JStr ''run'')]"] member
  have "map_of (snapshot_players (players
        (updatePlayerState 6 ''a'' (JObj [(''action'', JStr ''jump'')])
          (updatePlayerState 5 ''a'' (JObj [(''action'', JStr ''run'')]) ?two))) []) ''a''
      = Some (JObj (map_set ''displayName'' (displayName ?ann)
                (map_set ''timestamp'' (JNum 6) (own_props (JObj [(''action'', JStr ''jump'')])))))"
    by simp
  ultimately show ?thesis by simp
qed


section \<open>The session routers\<close>

subsection \<open>Example frames\<close>

lemma frames:
  "msgpack_decode state_frame = Inr (JObj [(''type'', JStr ''state'')])"
  "msgpack_decode chat_frame = Inr (JObj [(''type'', JStr ''chat'')])"
  "msgpack_decode hello_frame = Inr (JObj [(''type'', JStr ''hello'')])"
  "msgpack_decode hello_v2_frame = Inr (JObj [(''type'', JStr ''hello''), (''protocolVersion'', JNum 2)])"
  "msgpack_decode hello_text_frame = Inr (JObj [(''type'', JStr ''hello''), (''protocolVersion'', JStr ''2'')])"
  by code_simp+

lemma first_allow:
  "allow 100 c (RateLimiter_new 60)
     = (True, \<lparr>windows = [(c, [100])], maxMessages = 60, windowMs = 1000\<rparr>)"
  by (simp add: allow_def RateLimiter_new_def stored_window_def Let_def)


subsection \<open>Disconnecting\<close>

lemma leave_last_member:
  assumes "map fst (players room) = [i]"
  shows "leave rs i room = (room\<lparr>players := [], tickInterval := None\<rparr>, [])"
proof -
  from sole_entry [OF assms] obtain p where ps: "players room = [(i, p)]" by blast
  show ?thesis
    by (cases "tickInterval room")
       (simp_all add: leave_def ps Let_def broadcast_def stopTickLoop_def)
qed

lemma destroy_empty:
  "destroy (room\<lparr>players := [], tickInterval := None\<rparr>)
     = (room\<lparr>players := [], tickInterval := None\<rparr>, [])"
  by (simp add: destroy_def stopTickLoop_def)

lemma relay_leave_last_member:
  assumes "map fst (peers room) = [i]"
  shows "relay_leave rs i room = (room\<lparr>peers := []\<rparr>, [])"
proof -
  from sole_entry [OF assms] obtain m where ms: "peers room = [(i, m)]" by blast
  show ?thesis by (simp add: relay_leave_def ms Let_def)
qed

lemma on_close_auth_last_member:
  assumes "map_of (rooms srv) (roomId meta) = Some room"
    and "map fst (players room) = [clientId meta]"
  shows "on_close_auth rs w meta srv
     = (if roomId meta \<noteq> ''lobby''
        then (srv\<lparr>rateLimiter := remove (clientId meta) (rateLimiter srv),
                   rooms := map_delete (roomId meta) (rooms srv)\<rparr>, [StopKeepAlive w])
        else (srv\<lparr>rateLimiter := remove (clientId meta) (rateLimiter srv),
                   rooms := map_set (roomId meta) (room\<lparr>players := [], tickInterval := None\<rparr>)
                              (rooms srv)\<rparr>, [StopKeepAlive w]))"
  using assms(1)
  by (simp add: on_close_auth_def Let_def leave_last_member [OF assms(2)] playerCount_def
      destroy_empty put_room_def)

lemma on_close_auth_keeps_lobby:
  assumes "map_of (rooms srv) ''lobby'' \<noteq> None"
  shows "map_of (rooms (fst (on_close_auth rs w meta srv))) ''lobby'' \<noteq> None"
proof (cases "map_of (rooms srv) (roomId meta)")
  case None
  with assms show ?thesis by (simp add: on_close_auth_def Let_def)
next
  case (Some room)
  obtain room' sent where l: "leave rs (clientId meta) room = (room', sent)"
    by (cases "leave rs (clientId meta) room")
  obtain room'' closed where d: "destroy room' = (room'', closed)" by (cases "destroy room'")
  from assms Some l d show ?thesis
    by (auto simp: on_close_auth_def Let_def put_room_def map_of_map_set map_of_map_delete)
qed

lemma on_close_relay_last_member:
  assumes "map_of (rooms srv) (roomId meta) = Some room"
    and "map fst (peers room) = [clientId meta]"
  shows "on_close_relay rs w meta srv
     = (if roomId meta \<noteq> ''lobby''
        then (srv\<lparr>rateLimiter := remove (clientId meta) (rateLimiter srv),
                   rooms := map_delete (roomId meta) (rooms srv)\<rparr>, [StopKeepAlive w])
        else (srv\<lparr>rateLimiter := remove (clientId meta) (rateLimiter srv),
                   rooms := map_set (roomId meta) (room\<lparr>peers := []\<rparr>) (rooms srv)\<rparr>,
              [StopKeepAlive w]))"
  using assms(1)
  by (simp add: on_close_relay_def Let_def relay_leave_last_member [OF assms(2)]
      relay_playerCount_def relay_destroy_def put_room_def)

lemma on_close_relay_keeps_lobby:
  assumes "map_of (rooms srv) ''lobby'' \<noteq> None"
  shows "map_of (rooms (fst (on_close_relay rs w meta srv))) ''lobby'' \<noteq> None"
proof (cases "map_of (rooms srv) (roomId meta)")
  case None
  with assms show ?thesis by (simp add: on_close_relay_def Let_def)
next
  case (Some room)
  obtain room' sent where l: "relay_leave rs (clientId meta) room = (room', sent)"
    by (cases "relay_leave rs (clientId meta) room")
  from assms Some l show ?thesis
    by (auto simp: on_close_relay_def Let_def put_room_def map_of_map_set map_of_map_delete
        relay_destroy_def)
qed

text \<open>
  Claim C6. In the router of src/index.ts, when the client that disconnects is the one
  member of its room: for a room other than \<open>lobby\<close> the handler's result is that of
  \<open>leave\<close> followed by \<open>destroy\<close>, and the registry has no room under that id
  afterwards; for \<open>lobby\<close> the registry keeps the room, with no member and its tick
  timer stopped, and no socket is closed. No \<open>close\<close> event, of any client, takes
  \<open>lobby\<close> out of the registry. (\<open>last_member_disconnect_relay\<close> is the same for the
  handler of part_004 over the relay room.)
\<close>

theorem last_member_disconnect:
  assumes "map_of (rooms srv) (roomId meta) = Some room"
    and "map fst (players room) = [clientId meta]"
  shows "(roomId meta \<noteq> ''lobby'' \<longrightarrow>
            on_close_auth rs w meta srv
              = (srv\<lparr>rateLimiter := remove (clientId meta) (rateLimiter srv),
                      rooms := map_delete (roomId meta) (rooms srv)\<rparr>,
                 StopKeepAlive w # snd (leave rs (clientId meta) room)
                   @ snd (destroy (fst (leave rs (clientId meta) room))))
          \<and> map_of (rooms (fst (on_close_auth rs w meta srv))) (roomId meta) = None)
       \<and> (roomId meta = ''lobby'' \<longrightarrow>
            map_of (rooms (fst (on_close_auth rs w meta srv))) ''lobby''
              = Some (room\<lparr>players := [], tickInterval := None\<rparr>)
          \<and> snd (on_close_auth rs w meta srv) = [StopKeepAlive w])
       \<and> (\<forall>w' meta' srv'. map_of (rooms srv') ''lobby'' \<noteq> None \<longrightarrow>
            map_of (rooms (fst (on_close_auth rs w' meta' srv'))) ''lobby'' \<noteq> None)"
proof -
  note close = on_close_auth_last_member [OF assms, of rs w]
  have gone: "on_close_auth rs w meta srv
              = (srv\<lparr>rateLimiter := remove (clientId meta) (rateLimiter srv),
                      rooms := map_delete (roomId meta) (rooms srv)\<rparr>,
                 StopKeepAlive w # snd (leave rs (clientId meta) room)
                   @ snd (destroy (fst (leave rs (clientId meta) room))))
          \<and> map_of (rooms (fst (on_close_auth rs w meta srv))) (roomId meta) = None"
    if "roomId meta \<noteq> ''lobby''"
    using that close
    by (simp add: leave_last_member [OF assms(2)] destroy_empty map_of_map_delete)
  have kept: "map_of (rooms (fst (on_close_auth rs w meta srv))) ''lobby''
              = Some (room\<lparr>players := [], tickInterval := None\<rparr>)
          \<and> snd (on_close_auth rs w meta srv) = [StopKeepAlive w]"
    if "roomId meta = ''lobby''"
    using that close by (simp add: map_of_map_set)
  from gone kept on_close_auth_keeps_lobby show ?thesis by blast
qed


theorem last_member_disconnect_witness:
  "on_close_auth (\<lambda>w. OPEN) 12 \<lparr>clientId = ''b'', roomId = ''duel'', joined = True\<rparr> two_rooms_server
     = (\<lparr>rooms = [(''lobby'', one_player_room ''lobby'' ann)], rateLimiter = RateLimiter_new 60\<rparr>,
        [StopKeepAlive 12])
   \<and> on_close_auth (\<lambda>w. OPEN) 11 \<lparr>clientId = ''a'', roomId = ''lobby'', joined = True\<rparr> two_rooms_server
     = (\<lparr>rooms = [(''lobby'', (one_player_room ''lobby'' ann)\<lparr>players := [], tickInterval := None\<rparr>),
                  (''duel'', one_player_room ''duel'' bob)],
         rateLimiter = RateLimiter_new 60\<rparr>,
        [StopKeepAlive 11])"
proof -
  let ?b = "\<lparr>clientId = ''b'', roomId = ''duel'', joined = True\<rparr>"
  let ?a = "\<lparr>clientId = ''a'', roomId = ''lobby'', joined = True\<rparr>"
  have duel: "map_of (rooms two_rooms_server) (roomId ?b) = Some (one_player_room ''duel'' bob)"
    and lobby: "map_of (rooms two_rooms_server) (roomId ?a) = Some (one_player_room ''lobby'' ann)"
    by (simp_all add: two_rooms_server_def)
  have sole_b: "map fst (players (one_player_room ''duel'' bob)) = [clientId ?b]"
    and sole_a: "map fst (players (one_player_room ''lobby'' ann)) = [clientId ?a]"
    by (simp_all add: one_player_room_def bob_def ann_def)
  from last_member_disconnect [OF duel sole_b, of "\<lambda>w. OPEN" 12]
  have "on_close_auth (\<lambda>w. OPEN) 12 ?b two_rooms_server
      = (two_rooms_server\<lparr>rateLimiter := remove ''b'' (rateLimiter two_rooms_server),
            rooms := map_delete ''duel'' (rooms two_rooms_server)\<rparr>,
         StopKeepAlive 12 # snd (leave (\<lambda>w. OPEN) ''b'' (one_player_room ''duel'' bob))
           @ snd (destroy (fst (leave (\<lambda>w. OPEN) ''b'' (one_player_room ''duel'' bob)))))"
    by simp
  moreover have "leave (\<lambda>w. OPEN) ''b'' (one_player_room ''duel'' bob)
      = ((one_player_room ''duel'' bob)\<lparr>players := [], tickInterval := None\<rparr>, [])"
    using leave_last_member [of "one_player_room ''duel'' bob" "''b''"] sole_b by simp
  ultimately have first:
    "on_close_auth (\<lambda>w. OPEN) 12 ?b two_rooms_server
      = (\<lparr>rooms = [(''lobby'', one_player_room ''lobby'' ann)], rateLimiter = RateLimiter_new 60\<rparr>,
         [StopKeepAlive 12])"
    by (simp add: destroy_empty two_rooms_server_def remove_def RateLimiter_new_def)
  from last_member_disconnect [OF lobby sole_a, of "\<lambda>w. OPEN" 11]
  have "map_of (rooms (fst (on_close_auth (\<lambda>w. OPEN) 11 ?a two_rooms_server))) ''lobby''
      = Some ((one_player_room ''lobby'' ann)\<lparr>players := [], tickInterval := None\<rparr>)"
    and "snd (on_close_auth (\<lambda>w. OPEN) 11 ?a two_rooms_server) = [StopKeepAlive 11]"
    by simp_all
  moreover have "on_close_auth (\<lambda>w. OPEN) 11 ?a two_rooms_server
      = (\<lparr>rooms = [(''lobby'', (one_player_room ''lobby'' ann)\<lparr>players := [], tickInterval := None\<rparr>),
                  (''duel'', one_player_room ''duel'' bob)],
         rateLimiter = RateLimiter_new 60\<rparr>,
        [StopKeepAlive 11])"
    using on_close_auth_last_member [OF lobby sole_a, of "\<lambda>w. OPEN" 11]
    by (simp add: two_rooms_server_def remove_def RateLimiter_new_def)
  ultimately show ?thesis using first by simp
qed

lemma last_member_disconnect_relay:
  assumes "map_of (rooms srv) (roomId meta) = Some room"
    and "map fst (peers room) = [clientId meta]"
  shows "(roomId meta \<noteq> ''lobby'' \<longrightarrow>
            on_close_relay rs w meta srv
              = (srv\<lparr>rateLimiter := remove (clientId meta) (rateLimiter srv),
                      rooms := map_delete (roomId meta) (rooms srv)\<rparr>,
                 StopKeepAlive w # snd (relay_leave rs (clientId meta) room)
                   @ snd (relay_destroy (fst (relay_leave rs (clientId meta) room))))
          \<and> map_of (rooms (fst (on_close_relay rs w meta srv))) (roomId meta) = None)
       \<and> (roomId meta = ''lobby'' \<longrightarrow>
            map_of (rooms (fst (on_close_relay rs w meta srv))) ''lobby''
              = Some (room\<lparr>peers := []\<rparr>)
          \<and> snd (on_close_relay rs w meta srv) = [StopKeepAlive w])"
  using on_close_relay_last_member [OF assms, of rs w]
  by (simp add: relay_leave_last_member [OF assms(2)] relay_destroy_def map_of_map_delete
      map_of_map_set)


subsection \<open>The version handshake\<close>

text \<open>
  Claim C10. In the relay router, for a frame that the rate limiter admits and that decodes
  to a message whose \<open>type\<close> is \<open>hello\<close>: if \<open>protocolVersion\<close> is absent
  (\<open>undefined\<close>), is no number, or is the server's version, the handler has no effect
  at all (nothing is sent, nothing is closed, no room is touched); if it is a number other
  than the server's version, the effects are the BAD_PROTOCOL error envelope and the close
  with code 1008, and no room is touched.
\<close>

theorem hello_consumed:
  assumes "allow now (clientId meta) (rateLimiter srv) = (True, limiter)"
    and "decodeMessage_relay dec raw = Some message"
    and "js_get message ''type'' = Inr (JStr ''hello'')"
    and "js_get message ''protocolVersion'' = Inr clientVersion"
  shows "(typeof clientVersion \<noteq> TNumber \<or> clientVersion = JNum PROTOCOL_VERSION \<longrightarrow>
            on_message_relay dec rs now w meta raw srv = Inr (srv\<lparr>rateLimiter := limiter\<rparr>, []))
       \<and> (\<forall>v. clientVersion = JNum v \<and> v \<noteq> PROTOCOL_VERSION \<longrightarrow>
            on_message_relay dec rs now w meta raw srv
              = Inr (srv\<lparr>rateLimiter := limiter\<rparr>,
                     [Send w (ErrorMessage BAD_PROTOCOL
                        (''Protocol mismatch. Server=1, Client='' @ string_of_int v)),
                      Close w 1008 ''BAD_PROTOCOL'']))"
proof -
  have one: "string_of_int PROTOCOL_VERSION = ''1''"
    by (simp add: PROTOCOL_VERSION_def string_of_int_def digit_char_def)
  from assms show ?thesis
    by (cases clientVersion)
       (simp_all add: on_message_relay_def Let_def and_then_def one)
qed


theorem hello_consumed_witness:
  "on_message_relay msgpack_decode (\<lambda>w. OPEN) 100 11 \<lparr>clientId = ''a'', roomId = ''arena''\<rparr>
      hello_frame (relay_server 2)
     = Inr (relay_server 2
              \<lparr>rateLimiter := \<lparr>windows = [(''a'', [100])], maxMessages = 60, windowMs = 1000\<rparr>\<rparr>, [])
   \<and> on_message_relay msgpack_decode (\<lambda>w. OPEN) 100 11 \<lparr>clientId = ''a'', roomId = ''arena''\<rparr>
      hello_text_frame (relay_server 2)
     = Inr (relay_server 2
              \<lparr>rateLimiter := \<lparr>windows = [(''a'', [100])], maxMessages = 60, windowMs = 1000\<rparr>\<rparr>, [])
   \<and> on_message_relay msgpack_decode (\<lambda>w. OPEN) 100 11 \<lparr>clientId = ''a'', roomId = ''arena''\<rparr>
      hello_v2_frame (relay_server 2)
     = Inr (relay_server 2
              \<lparr>rateLimiter := \<lparr>windows = [(''a'', [100])], maxMessages = 60, windowMs = 1000\<rparr>\<rparr>,
            [Send 11 (ErrorMessage ''BAD_PROTOCOL'' ''Protocol mismatch. Server=1, Client=2''),
             Close 11 1008 ''BAD_PROTOCOL''])"
proof -
  let ?meta = "\<lparr>clientId = ''a'', roomId = ''arena''\<rparr>"
  let ?limiter = "\<lparr>windows = [(''a'', [100])], maxMessages = 60, windowMs = 1000\<rparr>"
  have admitted: "allow 100 (clientId ?meta) (rateLimiter (relay_server 2)) = (True, ?limiter)"
    by (simp add: relay_server_def first_allow)
  have plain: "decodeMessage_relay msgpack_decode hello_frame = Some (JObj [(''type'', JStr ''hello'')])"
    and worded: "decodeMessage_relay msgpack_decode hello_text_frame
        = Some (JObj [(''type'', JStr ''hello''), (''protocolVersion'', JStr ''2'')])"
    and v2: "decodeMessage_relay msgpack_decode hello_v2_frame
        = Some (JObj [(''type'', JStr ''hello''), (''protocolVersion'', JNum 2)])"
    by (simp_all add: decodeMessage_relay_eq frames)
  from hello_consumed [OF admitted plain, of JUndefined "\<lambda>w. OPEN" 11]
  have "on_message_relay msgpack_decode (\<lambda>w. OPEN) 100 11 ?meta hello_frame (relay_server 2)
      = Inr (relay_server 2\<lparr>rateLimiter := ?limiter\<rparr>, [])"
    by simp
  moreover from hello_consumed [OF admitted worded, of "JStr ''2''" "\<lambda>w. OPEN" 11]
  have "on_message_relay msgpack_decode (\<lambda>w. OPEN) 100 11 ?meta hello_text_frame (relay_server 2)
      = Inr (relay_server 2\<lparr>rateLimiter := ?limiter\<rparr>, [])"
    by simp
  moreover from hello_consumed [OF admitted v2, of "JNum 2" "\<lambda>w. OPEN" 11]
  have "on_message_relay msgpack_decode (\<lambda>w. OPEN) 100 11 ?meta hello_v2_frame (relay_server 2)
      = Inr (relay_server 2\<lparr>rateLimiter := ?limiter\<rparr>,
            [Send 11 (ErrorMessage BAD_PROTOCOL (''Protocol mismatch. Server=1, Client='' @ string_of_int 2)),
             Close 11 1008 ''BAD_PROTOCOL''])"
    by (simp add: PROTOCOL_VERSION_def)
  ultimately show ?thesis by (simp add: BAD_PROTOCOL_def string_of_int_def digit_char_def)
qed

subsection \<open>Joining: by message or at connect time\<close>

lemma getOrCreateRoom_relay_held:
  assumes "getOrCreateRoom_relay cfg now rid srv = (room, srv')"
  shows "map_of (rooms srv') rid = Some room"
  using assms
  by (auto simp: getOrCreateRoom_relay_def Let_def map_of_map_set split: option.splits)

lemma on_connection_relay_full:
  assumes "getOrCreateRoom_relay cfg now (roomId m) srv = (room, srv')"
    and "relay_maxPlayers room \<le> int (length (peers room))"
  shows "on_connection_relay cfg rs now w (Some m) srv
     = (False, srv',
        [Send w (ErrorMessage ROOM_FULL
           (''Room \"'' @ relay_id room @ ''\" is full (''
              @ string_of_int (relay_maxPlayers room) @ '' peers)'')),
         Close w 1013 ''Room full''])"
  using assms getOrCreateRoom_relay_held [OF assms(1)]
  by (simp add: on_connection_relay_def relay_join_def relay_isFull_def relay_full_message_def
      put_room_def map_set_same)

lemma on_connection_relay_joined:
  assumes "getOrCreateRoom_relay cfg now (roomId m) srv = (room, srv')"
    and "int (length (peers room)) < relay_maxPlayers room"
  shows "on_connection_relay cfg rs now w (Some m) srv
     = (True,
        put_room (roomId m)
          (room\<lparr>peers := map_set (clientId m)
              \<lparr>peer_id = clientId m, peer_ws = w, peer_joinedAt = now\<rparr> (peers room)\<rparr>) srv',
        (if rs w = OPEN
         then [Send w (Welcome PROTOCOL_VERSION (clientId m) (map (\<lambda>(k, peer). peer_id peer) (peers room)))]
         else [])
        @ relay_broadcast rs
            (map_set (clientId m) \<lparr>peer_id = clientId m, peer_ws = w, peer_joinedAt = now\<rparr> (peers room))
            (PeerJoined (clientId m)) (Some (clientId m))
        @ [StartKeepAlive w (KEEPALIVE_MS cfg)])"
  using assms
  by (simp add: on_connection_relay_def relay_join_def relay_isFull_def relay_send_def Let_def)

text \<open>
  Claim C5, with the modes as the code has them. In the authoritative router
  (src/index.ts), for a client that has not joined and a frame that the rate limiter admits
  and that decodes: a \<open>state\<close> message is answered with the NOT_JOINED error envelope
  and nothing else (the socket is not closed), and a message of any type other than
  \<open>join\<close> and \<open>state\<close> has no effect; in both cases no room method is called. In
  the relay router (part_004) the \<open>connection\<close> handler joins the room it finds or
  creates: when that room is full (it has as many peers as \<open>maxPlayers\<close>, or more) the
  handler sends the room's ROOM_FULL envelope, closes the socket with code 1013, installs
  no handler and leaves the room as it was; otherwise the client is a peer of the room
  when the handler returns, \<open>welcome\<close> with the ids of the peers before it has gone to
  its socket if that is open, \<open>peer_joined\<close> to the other peers, and the keep-alive
  timer is started.
\<close>

theorem join_gate:
  "(\<not> joined meta \<and> allow now (clientId meta) (rateLimiter srv) = (True, limiter)
      \<and> decodeMessage_auth dec data = Some message \<and> js_get message ''type'' = Inr (JStr ''state'')
     \<longrightarrow> on_message_auth dec cfg rs now w meta data srv
           = Inr (meta,
                  snd (getOrCreateRoom_auth cfg now (roomId meta) (srv\<lparr>rateLimiter := limiter\<rparr>)),
                  [Send w (Error NOT_JOINED ''Send a \"join\" message first'')]))
   \<and> (\<not> joined meta \<and> allow now (clientId meta) (rateLimiter srv) = (True, limiter)
      \<and> decodeMessage_auth dec data = Some message \<and> js_get message ''type'' = Inr type
      \<and> type \<noteq> JStr ''join'' \<and> type \<noteq> JStr ''state''
     \<longrightarrow> on_message_auth dec cfg rs now w meta data srv
           = Inr (meta,
                  snd (getOrCreateRoom_auth cfg now (roomId meta) (srv\<lparr>rateLimiter := limiter\<rparr>)),
                  []))
   \<and> (getOrCreateRoom_relay cfg now (roomId m) rsrv = (room, rsrv')
      \<and> relay_maxPlayers room \<le> int (length (peers room))
     \<longrightarrow> on_connection_relay cfg rs now w (Some m) rsrv
           = (False, rsrv',
              [Send w (ErrorMessage ROOM_FULL
                 (''Room \"'' @ relay_id room @ ''\" is full (''
                    @ string_of_int (relay_maxPlayers room) @ '' peers)'')),
               Close w 1013 ''Room full'']))
   \<and> (getOrCreateRoom_relay cfg now (roomId m) rsrv = (room, rsrv')
      \<and> int (length (peers room)) < relay_maxPlayers room
     \<longrightarrow> fst (on_connection_relay cfg rs now w (Some m) rsrv)
         \<and> map_of (rooms (fst (snd (on_connection_relay cfg rs now w (Some m) rsrv)))) (roomId m)
             = Some (room\<lparr>peers := map_set (clientId m)
                        \<lparr>peer_id = clientId m, peer_ws = w, peer_joinedAt = now\<rparr> (peers room)\<rparr>)
         \<and> map_of (map_set (clientId m)
                      \<lparr>peer_id = clientId m, peer_ws = w, peer_joinedAt = now\<rparr> (peers room))
              (clientId m)
             = Some \<lparr>peer_id = clientId m, peer_ws = w, peer_joinedAt = now\<rparr>
         \<and> snd (snd (on_connection_relay cfg rs now w (Some m) rsrv))
             = (if rs w = OPEN
                then [Send w (Welcome PROTOCOL_VERSION (clientId m)
                                (map (\<lambda>(k, peer). peer_id peer) (peers room)))]
                else [])
               @ relay_broadcast rs
                   (map_set (clientId m)
                      \<lparr>peer_id = clientId m, peer_ws = w, peer_joinedAt = now\<rparr> (peers room))
                   (PeerJoined (clientId m)) (Some (clientId m))
               @ [StartKeepAlive w (KEEPALIVE_MS cfg)])"
proof -
  have a: "on_message_auth dec cfg rs now w meta data srv
           = Inr (meta,
                  snd (getOrCreateRoom_auth cfg now (roomId meta) (srv\<lparr>rateLimiter := limiter\<rparr>)),
                  [Send w (Error NOT_JOINED ''Send a \"join\" message first'')])"
    if "\<not> joined meta" "allow now (clientId meta) (rateLimiter srv) = (True, limiter)"
      "decodeMessage_auth dec data = Some message" "js_get message ''type'' = Inr (JStr ''state'')"
    using that
    by (cases "getOrCreateRoom_auth cfg now (roomId meta) (srv\<lparr>rateLimiter := limiter\<rparr>)")
       (simp add: on_message_auth_def Let_def and_then_def)
  have b: "on_message_auth dec cfg rs now w meta data srv
           = Inr (meta,
                  snd (getOrCreateRoom_auth cfg now (roomId meta) (srv\<lparr>rateLimiter := limiter\<rparr>)),
                  [])"
    if "\<not> joined meta" "allow now (clientId meta) (rateLimiter srv) = (True, limiter)"
      "decodeMessage_auth dec data = Some message" "js_get message ''type'' = Inr type"
      "type \<noteq> JStr ''join''" "type \<noteq> JStr ''state''"
    using that
    by (cases "getOrCreateRoom_auth cfg now (roomId meta) (srv\<lparr>rateLimiter := limiter\<rparr>)")
       (simp add: on_message_auth_def Let_def and_then_def)
  note c = on_connection_relay_full [of cfg now m rsrv room rsrv' rs w]
  have d: "fst (on_connection_relay cfg rs now w (Some m) rsrv)
         \<and> map_of (rooms (fst (snd (on_connection_relay cfg rs now w (Some m) rsrv)))) (roomId m)
             = Some (room\<lparr>peers := map_set (clientId m)
                        \<lparr>peer_id = clientId m, peer_ws = w, peer_joinedAt = now\<rparr> (peers room)\<rparr>)
         \<and> map_of (map_set (clientId m)
                      \<lparr>peer_id = clientId m, peer_ws = w, peer_joinedAt = now\<rparr> (peers room))
              (clientId m)
             = Some \<lparr>peer_id = clientId m, peer_ws = w, peer_joinedAt = now\<rparr>
         \<and> snd (snd (on_connection_relay cfg rs now w (Some m) rsrv))
             = (if rs w = OPEN
                then [Send w (Welcome PROTOCOL_VERSION (clientId m)
                                (map (\<lambda>(k, peer). peer_id peer) (peers room)))]
                else [])
               @ relay_broadcast rs
                   (map_set (clientId m)
                      \<lparr>peer_id = clientId m, peer_ws = w, peer_joinedAt = now\<rparr> (peers room))
                   (PeerJoined (clientId m)) (Some (clientId m))
               @ [StartKeepAlive w (KEEPALIVE_MS cfg)]"
    if "getOrCreateRoom_relay cfg now (roomId m) rsrv = (room, rsrv')"
      "int (length (peers room)) < relay_maxPlayers room"
    using on_connection_relay_joined [OF that, of rs w]
    by (simp add: put_room_def map_of_map_set)
  from a b c d show ?thesis by blast
qed

theorem join_gate_witness:
  "on_message_auth msgpack_decode example_config (\<lambda>w. OPEN) 100 13
      \<lparr>clientId = ''c'', roomId = ''arena'', joined = False\<rparr> state_frame arena_server
     = Inr (\<lparr>clientId = ''c'', roomId = ''arena'', joined = False\<rparr>,
            arena_server\<lparr>rateLimiter := \<lparr>windows = [(''c'', [100])], maxMessages = 60, windowMs = 1000\<rparr>\<rparr>,
            [Send 13 (Error ''NOT_JOINED'' ''Send a \"join\" message first'')])
   \<and> on_message_auth msgpack_decode example_config (\<lambda>w. OPEN) 100 13
      \<lparr>clientId = ''c'', roomId = ''arena'', joined = False\<rparr> chat_frame arena_server
     = Inr (\<lparr>clientId = ''c'', roomId = ''arena'', joined = False\<rparr>,
            arena_server\<lparr>rateLimiter := \<lparr>windows = [(''c'', [100])], maxMessages = 60, windowMs = 1000\<rparr>\<rparr>,
            [])
   \<and> on_connection_relay example_config (\<lambda>w. OPEN) 100 13
        (Some \<lparr>clientId = ''c'', roomId = ''arena''\<rparr>) (relay_server 2)
     = (False, relay_server 2,
        [Send 13 (ErrorMessage ''ROOM_FULL'' ''Room \"arena\" is full (2 peers)''),
         Close 13 1013 ''Room full''])
   \<and> fst (on_connection_relay example_config (\<lambda>w. OPEN) 100 13
        (Some \<lparr>clientId = ''c'', roomId = ''arena''\<rparr>) (relay_server 3))
   \<and> snd (snd (on_connection_relay example_config (\<lambda>w. OPEN) 100 13
        (Some \<lparr>clientId = ''c'', roomId = ''arena''\<rparr>) (relay_server 3)))
     = [Send 13 (Welcome 1 ''c'' [''a'', ''b'']), Send 11 (PeerJoined ''c''),
        Send 12 (PeerJoined ''c''), StartKeepAlive 13 30000]"
proof -
  let ?meta = "\<lparr>clientId = ''c'', roomId = ''arena'', joined = False\<rparr>"
  let ?m = "\<lparr>clientId = ''c'', roomId = ''arena''\<rparr>"
  let ?limiter = "\<lparr>windows = [(''c'', [100])], maxMessages = 60, windowMs = 1000\<rparr>"
  have admitted: "allow 100 (clientId ?meta) (rateLimiter arena_server) = (True, ?limiter)"
    by (simp add: arena_server_def first_allow)
  have st: "decodeMessage_auth msgpack_decode state_frame = Some (JObj [(''type'', JStr ''state'')])"
    and ch: "decodeMessage_auth msgpack_decode chat_frame = Some (JObj [(''type'', JStr ''chat'')])"
    by (simp_all add: decodeMessage_auth_eq frames)
  have room: "snd (getOrCreateRoom_auth example_config 100 (roomId ?meta)
                    (arena_server\<lparr>rateLimiter := ?limiter\<rparr>))
      = arena_server\<lparr>rateLimiter := ?limiter\<rparr>"
    by (simp add: getOrCreateRoom_auth_def arena_server_def)
  have full: "getOrCreateRoom_relay example_config 100 (roomId ?m) (relay_server 2)
        = (relay_arena 2, relay_server 2)"
    "relay_maxPlayers (relay_arena 2) \<le> int (length (peers (relay_arena 2)))"
    and free: "getOrCreateRoom_relay example_config 100 (roomId ?m) (relay_server 3)
        = (relay_arena 3, relay_server 3)"
    "int (length (peers (relay_arena 3))) < relay_maxPlayers (relay_arena 3)"
    by (simp_all add: getOrCreateRoom_relay_def relay_server_def relay_arena_def)
  from join_gate [of ?meta 100 arena_server ?limiter msgpack_decode state_frame
      "JObj [(''type'', JStr ''state'')]" example_config "\<lambda>w. OPEN" 13] admitted st room
  have "on_message_auth msgpack_decode example_config (\<lambda>w. OPEN) 100 13 ?meta state_frame arena_server
      = Inr (?meta, arena_server\<lparr>rateLimiter := ?limiter\<rparr>,
             [Send 13 (Error NOT_JOINED ''Send a \"join\" message first'')])"
    by simp
  moreover
  from join_gate [of ?meta 100 arena_server ?limiter msgpack_decode chat_frame
      "JObj [(''type'', JStr ''chat'')]" example_config "\<lambda>w. OPEN" 13 "JStr ''chat''"] admitted ch room
  have "on_message_auth msgpack_decode example_config (\<lambda>w. OPEN) 100 13 ?meta chat_frame arena_server
      = Inr (?meta, arena_server\<lparr>rateLimiter := ?limiter\<rparr>, [])"
    by simp
  moreover
  from join_gate [where rsrv = "relay_server 2" and rsrv' = "relay_server 2" and m = ?m
      and room = "relay_arena 2" and cfg = example_config and rs = "\<lambda>w. OPEN" and now = 100
      and w = 13] full
  have "on_connection_relay example_config (\<lambda>w. OPEN) 100 13 (Some ?m) (relay_server 2)
      = (False, relay_server 2,
         [Send 13 (ErrorMessage ROOM_FULL
            (''Room \"'' @ relay_id (relay_arena 2) @ ''\" is full (''
               @ string_of_int (relay_maxPlayers (relay_arena 2)) @ '' peers)'')),
          Close 13 1013 ''Room full''])"
    by simp
  moreover
  from join_gate [where rsrv = "relay_server 3" and rsrv' = "relay_server 3" and m = ?m
      and room = "relay_arena 3" and cfg = example_config and rs = "\<lambda>w. OPEN" and now = 100
      and w = 13] free
  have "fst (on_connection_relay example_config (\<lambda>w. OPEN) 100 13 (Some ?m) (relay_server 3))"
    and "snd (snd (on_connection_relay example_config (\<lambda>w. OPEN) 100 13 (Some ?m) (relay_server 3)))
      = [Send 13 (Welcome PROTOCOL_VERSION ''c'' (map (\<lambda>(k, peer). peer_id peer) (peers (relay_arena 3))))]
        @ relay_broadcast (\<lambda>w. OPEN)
            (map_set ''c'' \<lparr>peer_id = ''c'', peer_ws = 13, peer_joinedAt = 100\<rparr> (peers (relay_arena 3)))
            (PeerJoined ''c'') (Some ''c'')
        @ [StartKeepAlive 13 (KEEPALIVE_MS example_config)]"
    by simp_all
  ultimately show ?thesis
    by (simp add: NOT_JOINED_def ROOM_FULL_def relay_arena_def string_of_int_def digit_char_def
        PROTOCOL_VERSION_def example_config_def)
qed


text \<open>
  The claim as stated has the modes the other way round. In the authoritative router a
  connection to a full room is neither joined nor closed, and a \<open>state\<close> message before
  \<open>join\<close> is what gets the NOT_JOINED answer; in the relay router the connection is
  joined at once and a \<open>state\<close> message is relayed to the peers like any other.
\<close>

theorem join_gate_modes_counterexample:
  "on_connection_auth example_config 13
      (Some \<lparr>clientId = ''c'', roomId = ''arena'', joined = False\<rparr>) arena_server
     = (True, arena_server, [StartKeepAlive 13 30000])
   \<and> on_message_auth msgpack_decode example_config (\<lambda>w. OPEN) 100 13
      \<lparr>clientId = ''c'', roomId = ''arena'', joined = False\<rparr> state_frame arena_server
     = Inr (\<lparr>clientId = ''c'', roomId = ''arena'', joined = False\<rparr>,
            arena_server\<lparr>rateLimiter := \<lparr>windows = [(''c'', [100])], maxMessages = 60, windowMs = 1000\<rparr>\<rparr>,
            [Send 13 (Error ''NOT_JOINED'' ''Send a \"join\" message first'')])
   \<and> on_connection_relay example_config (\<lambda>w. OPEN) 100 13
        (Some \<lparr>clientId = ''c'', roomId = ''arena''\<rparr>) (relay_server 3)
     = (True,
        \<lparr>rooms = [(''arena'',
             relay_arena 3\<lparr>peers := peers (relay_arena 3)
                @ [(''c'', \<lparr>peer_id = ''c'', peer_ws = 13, peer_joinedAt = 100\<rparr>)]\<rparr>)],
         rateLimiter = RateLimiter_new 60\<rparr>,
        [Send 13 (Welcome 1 ''c'' [''a'', ''b'']), Send 11 (PeerJoined ''c''), Send 12 (PeerJoined ''c''),
         StartKeepAlive 13 30000])
   \<and> on_message_relay msgpack_decode (\<lambda>w. OPEN) 100 11 \<lparr>clientId = ''a'', roomId = ''arena''\<rparr>
        state_frame (relay_server 3)
     = Inr (\<lparr>rooms = [(''arena'', relay_arena 3\<lparr>relay_messageCount := 1\<rparr>)],
             rateLimiter = \<lparr>windows = [(''a'', [100])], maxMessages = 60, windowMs = 1000\<rparr>\<rparr>,
            [Send 12 (Relay ''a'' (JObj [(''type'', JStr ''state'')]))])"
proof -
  have "on_connection_auth example_config 13
      (Some \<lparr>clientId = ''c'', roomId = ''arena'', joined = False\<rparr>) arena_server
     = (True, arena_server, [StartKeepAlive 13 30000])"
    by (simp add: on_connection_auth_def example_config_def)
  moreover have "on_message_auth msgpack_decode example_config (\<lambda>w. OPEN) 100 13
      \<lparr>clientId = ''c'', roomId = ''arena'', joined = False\<rparr> state_frame arena_server
     = Inr (\<lparr>clientId = ''c'', roomId = ''arena'', joined = False\<rparr>,
            arena_server\<lparr>rateLimiter := \<lparr>windows = [(''c'', [100])], maxMessages = 60, windowMs = 1000\<rparr>\<rparr>,
            [Send 13 (Error ''NOT_JOINED'' ''Send a \"join\" message first'')])"
    by (simp add: on_message_auth_def arena_server_def first_allow decodeMessage_auth_eq frames
        getOrCreateRoom_auth_def and_then_def NOT_JOINED_def)
  moreover have "on_connection_relay example_config (\<lambda>w. OPEN) 100 13
        (Some \<lparr>clientId = ''c'', roomId = ''arena''\<rparr>) (relay_server 3)
     = (True,
        \<lparr>rooms = [(''arena'',
             relay_arena 3\<lparr>peers := peers (relay_arena 3)
                @ [(''c'', \<lparr>peer_id = ''c'', peer_ws = 13, peer_joinedAt = 100\<rparr>)]\<rparr>)],
         rateLimiter = RateLimiter_new 60\<rparr>,
        [Send 13 (Welcome 1 ''c'' [''a'', ''b'']), Send 11 (PeerJoined ''c''), Send 12 (PeerJoined ''c''),
         StartKeepAlive 13 30000])"
    by (simp add: on_connection_relay_def getOrCreateRoom_relay_def relay_server_def relay_arena_def
        relay_join_def relay_isFull_def relay_send_def put_room_def Let_def PROTOCOL_VERSION_def
        example_config_def)
  moreover have "on_message_relay msgpack_decode (\<lambda>w. OPEN) 100 11 \<lparr>clientId = ''a'', roomId = ''arena''\<rparr>
        state_frame (relay_server 3)
     = Inr (\<lparr>rooms = [(''arena'', relay_arena 3\<lparr>relay_messageCount := 1\<rparr>)],
             rateLimiter = \<lparr>windows = [(''a'', [100])], maxMessages = 60, windowMs = 1000\<rparr>\<rparr>,
            [Send 12 (Relay ''a'' (JObj [(''type'', JStr ''state'')]))])"
    by (simp add: on_message_relay_def relay_server_def first_allow decodeMessage_relay_eq frames
        and_then_def relay_def relay_arena_def put_room_def Let_def)
  ultimately show ?thesis by simp
qed


end
